theory Spec2Isabelle
  imports Complex_Main
begin

section \<open>Values of the host language\<close>

text \<open>
  Flag values, defaults and event payloads are dynamically typed. A value is one of the
  shapes below. Finite numbers are rationals with exact arithmetic and \<open>NaN\<close> is a value of
  its own; the rounding of binary64, the infinities and the sign of zero are left out.
  An object is the list of its own enumerable properties; a function value is opaque and
  carries only a name.
\<close>

datatype jsval =
    Undefined
  | Null
  | Bool bool
  | Num rat
  | NaN
  | Str string
  | Arr "jsval list"
  | Obj "(string \<times> jsval) list"
  | Fun string

text \<open>Truthiness, as the conditions \<open>if (enabled)\<close> and \<open>if (settings[flagKey])\<close> test it.\<close>

fun truthy :: "jsval \<Rightarrow> bool" where
  "truthy Undefined = False"
| "truthy Null = False"
| "truthy (Bool b) = b"
| "truthy (Num r) = (r \<noteq> 0)"
| "truthy NaN = False"
| "truthy (Str s) = (s \<noteq> [])"
| "truthy (Arr xs) = True"
| "truthy (Obj fs) = True"
| "truthy (Fun f) = True"

fun nullish :: "jsval \<Rightarrow> bool" where
  "nullish Undefined = True"
| "nullish Null = True"
| "nullish v = False"

text \<open>\<open>a ?? d\<close>: the right operand replaces \<open>undefined\<close> and \<open>null\<close> only.\<close>

definition coalesce :: "jsval \<Rightarrow> jsval \<Rightarrow> jsval" where
  "coalesce a d = (if nullish a then d else a)"

text \<open>
  A default in a parameter list or in a destructuring pattern (\<open>defaultValue = true\<close>,
  \<open>gain = 1\<close>) replaces \<open>undefined\<close> only; \<open>null\<close> stays.
\<close>

definition default_to :: "jsval \<Rightarrow> jsval \<Rightarrow> jsval" where
  "default_to a d = (if a = Undefined then d else a)"

section \<open>The flag store\<close>

text \<open>
  \<open>const flags = {}\<close> is a plain object: its own properties are the flags received from
  the provider, and a read \<open>flags[key]\<close> of a key that is not an own property continues
  in the object's prototype. The properties every plain object inherits are listed here;
  all of them hold functions, except \<open>__proto__\<close>, which yields the prototype object.
\<close>

type_synonym flag_store = "string \<Rightarrow> jsval option"

definition object_prototype :: "(string \<times> jsval) list" where
  "object_prototype =
     [(''constructor'', Fun ''Object''),
      (''hasOwnProperty'', Fun ''hasOwnProperty''),
      (''isPrototypeOf'', Fun ''isPrototypeOf''),
      (''propertyIsEnumerable'', Fun ''propertyIsEnumerable''),
      (''toLocaleString'', Fun ''toLocaleString''),
      (''toString'', Fun ''toString''),
      (''valueOf'', Fun ''valueOf''),
      (''__defineGetter__'', Fun ''__defineGetter__''),
      (''__defineSetter__'', Fun ''__defineSetter__''),
      (''__lookupGetter__'', Fun ''__lookupGetter__''),
      (''__lookupSetter__'', Fun ''__lookupSetter__''),
      (''__proto__'', Obj [])]"

definition inherited :: "string \<Rightarrow> jsval" where
  "inherited key = (case map_of object_prototype key of Some v \<Rightarrow> v | None \<Rightarrow> Undefined)"

text \<open>\<open>flags[key]\<close>.\<close>

definition read_flag :: "flag_store \<Rightarrow> string \<Rightarrow> jsval" where
  "read_flag flags key = (case flags key of Some v \<Rightarrow> v | None \<Rightarrow> inherited key)"

section \<open>Patterns and events\<close>

text \<open>
  The pattern engine is consumed at its interface: a pattern is a function from a query
  state (the requested window) to the list of timed events in it. An event carries a time
  extent, which this layer never inspects, and a payload.
\<close>

record 't hap =
  extent :: 't
  hap_value :: jsval

type_synonym ('q, 't) pattern = "'q \<Rightarrow> 't hap list"

text \<open>
  Modelled from the spec: the engine's \<open>stack\<close> (package @strudel/core, whose
  sources are not at hand), "the simultaneous
  union" of its argument patterns "preserving the sequence's order": the events of every
  layer for the same window, layer after layer.
\<close>

definition stack :: "('q, 't) pattern list \<Rightarrow> ('q, 't) pattern" where
  "stack pats state = concat (map (\<lambda>pat. pat state) pats)"

section \<open>The boolean gate\<close>

text \<open>The body of the query function of \<open>toggle\<close>, once \<open>enabled\<close> has been read.\<close>

definition toggle_on :: "jsval \<Rightarrow> ('q, 't) pattern \<Rightarrow> ('q, 't) pattern" where
  "toggle_on enabled self state = (if truthy enabled then self state else [])"

definition toggle ::
  "flag_store \<Rightarrow> string \<Rightarrow> jsval \<Rightarrow> ('q, 't) pattern \<Rightarrow> ('q, 't) pattern" where
  "toggle flags flagKey defaultArg self state =
     (let defaultValue = default_to defaultArg (Bool True);
          enabled = coalesce (read_flag flags flagKey) defaultValue
      in toggle_on enabled self state)"

section \<open>The polyphonic layering transform\<close>

text \<open>
  \<open>fast\<close> stands for the engine's \<open>_fast\<close>: the pattern sped up by a factor. It is a
  parameter; nothing is assumed about it.
\<close>

definition polySpeed_on ::
  "(jsval \<Rightarrow> ('q, 't) pattern \<Rightarrow> ('q, 't) pattern) \<Rightarrow> jsval \<Rightarrow> ('q, 't) pattern \<Rightarrow> ('q, 't) pattern" where
  "polySpeed_on fast speeds self state =
     (case speeds of
        Arr xs \<Rightarrow>
          (if length xs = 0 then self state
           else stack (map (\<lambda>speed. fast speed self) xs) state)
      | _ \<Rightarrow> fast speeds self state)"

definition polySpeed ::
  "(jsval \<Rightarrow> ('q, 't) pattern \<Rightarrow> ('q, 't) pattern) \<Rightarrow> flag_store \<Rightarrow> string \<Rightarrow> jsval \<Rightarrow>
   ('q, 't) pattern \<Rightarrow> ('q, 't) pattern" where
  "polySpeed fast flags flagKey defaultArg self state =
     (let defaultValue = default_to defaultArg (Num 1);
          speeds = coalesce (read_flag flags flagKey) defaultValue
      in polySpeed_on fast speeds self state)"

section \<open>Objects and their properties\<close>

text \<open>The decimal name of an array or string index, as a property key.\<close>

fun decimal :: "nat \<Rightarrow> string" where
  "decimal n =
     (if n < 10 then [char_of (48 + n)]
      else decimal (n div 10) @ [char_of (48 + n mod 10)])"

declare decimal.simps [simp del]

text \<open>
  The own enumerable properties of a value, which a spread \<open>{...v}\<close> and a rest pattern
  \<open>{...effects}\<close> copy: the fields of an object, the indexed elements of an array, the
  indexed characters of a string, and nothing for the other primitives.
\<close>

fun own_props :: "jsval \<Rightarrow> (string \<times> jsval) list" where
  "own_props (Obj fs) = fs"
| "own_props (Arr xs) = zip (map decimal [0..<length xs]) xs"
| "own_props (Str s) = zip (map decimal [0..<length s]) (map (\<lambda>c. Str [c]) s)"
| "own_props v = []"

text \<open>
  \<open>v.name\<close> on a value that is neither \<open>undefined\<close> nor \<open>null\<close>, for the names this
  module reads (\<open>bank\<close>, \<open>sound\<close>, \<open>lpf\<close>, \<open>lpq\<close>, \<open>gain\<close>, \<open>current\<close>), none of which
  is a built-in property of objects, arrays or strings.
\<close>

definition get_prop :: "jsval \<Rightarrow> string \<Rightarrow> jsval" where
  "get_prop v name = (case map_of (own_props v) name of Some x \<Rightarrow> x | None \<Rightarrow> Undefined)"

text \<open>
  An object literal \<open>{...v, ...effects, name: x}\<close> starts from a copy of the own
  properties of \<open>v\<close>; each further property replaces the one of the same name, or is
  added last. Properties are read by name only, so the place the host language gives to
  integer-like keys in the enumeration order is not modelled.
\<close>

fun set_prop :: "(string \<times> jsval) list \<Rightarrow> string \<Rightarrow> jsval \<Rightarrow> (string \<times> jsval) list" where
  "set_prop [] name x = [(name, x)]"
| "set_prop ((k, y) # fs) name x =
     (if k = name then (name, x) # fs else (k, y) # set_prop fs name x)"

definition spread :: "(string \<times> jsval) list \<Rightarrow> (string \<times> jsval) list \<Rightarrow> (string \<times> jsval) list" where
  "spread target props = foldl (\<lambda>acc (k, x). set_prop acc k x) target props"

text \<open>The rest of a destructuring pattern: the own properties not named before it.\<close>

definition rest_props :: "string list \<Rightarrow> jsval \<Rightarrow> (string \<times> jsval) list" where
  "rest_props names v = filter (\<lambda>(k, x). k \<notin> set names) (own_props v)"

text \<open>
  The product \<open>a * b\<close>. Both operands are converted to numbers first; the conversion of
  strings, arrays, objects and functions is the parameter \<open>conv\<close>, with \<open>None\<close> for NaN.
\<close>

fun to_number :: "(jsval \<Rightarrow> rat option) \<Rightarrow> jsval \<Rightarrow> rat option" where
  "to_number conv Undefined = None"
| "to_number conv Null = Some 0"
| "to_number conv (Bool b) = Some (if b then 1 else 0)"
| "to_number conv (Num r) = Some r"
| "to_number conv NaN = None"
| "to_number conv v = conv v"

definition js_mul :: "(jsval \<Rightarrow> rat option) \<Rightarrow> jsval \<Rightarrow> jsval \<Rightarrow> jsval" where
  "js_mul conv a b =
     (case to_number conv a of
        None \<Rightarrow> NaN
      | Some x \<Rightarrow> (case to_number conv b of None \<Rightarrow> NaN | Some y \<Rightarrow> Num (x * y)))"

section \<open>The parameter bundle merges\<close>

datatype error = TypeError

text \<open>
  Modelled from the spec: the engine's \<open>withHap\<close> and \<open>withValue\<close> (package
  @strudel/core, whose sources are not at hand);
  the merge "is applied to each individual timed event's payload". A callback that throws
  aborts the query.
\<close>

fun traverse :: "('a \<Rightarrow> error + 'b) \<Rightarrow> 'a list \<Rightarrow> error + 'b list" where
  "traverse f [] = Inr []"
| "traverse f (x # xs) =
     (case f x of
        Inl e \<Rightarrow> Inl e
      | Inr y \<Rightarrow> (case traverse f xs of Inl e \<Rightarrow> Inl e | Inr ys \<Rightarrow> Inr (y # ys)))"

definition hap_withValue :: "(jsval \<Rightarrow> error + jsval) \<Rightarrow> 't hap \<Rightarrow> error + 't hap" where
  "hap_withValue f h =
     (case f (hap_value h) of Inl e \<Rightarrow> Inl e | Inr v \<Rightarrow> Inr (h\<lparr>hap_value := v\<rparr>))"

definition withHap :: "('t hap \<Rightarrow> error + 't hap) \<Rightarrow> ('q, 't) pattern \<Rightarrow> 'q \<Rightarrow> error + 't hap list" where
  "withHap f self state = traverse f (self state)"

definition withValue :: "(jsval \<Rightarrow> jsval) \<Rightarrow> ('q, 't) pattern \<Rightarrow> ('q, 't) pattern" where
  "withValue f self state = map (\<lambda>h. h\<lparr>hap_value := f (hap_value h)\<rparr>) (self state)"

text \<open>
  The three merges first decode a textual flag value: \<open>json_parse\<close> stands for
  \<open>JSON.parse\<close>, with \<open>None\<close> where it throws, in which case the text is kept as it is.
\<close>

definition decode :: "(string \<Rightarrow> jsval option) \<Rightarrow> jsval \<Rightarrow> jsval" where
  "decode json_parse flagValue =
     (case flagValue of
        Str s \<Rightarrow> (case json_parse s of Some parsed \<Rightarrow> parsed | None \<Rightarrow> flagValue)
      | _ \<Rightarrow> flagValue)"

text \<open>
  \<open>drumKit\<close> on one payload \<open>v\<close>, once the bundle has been read and decoded. Destructuring
  \<open>undefined\<close> or \<open>null\<close> throws, and so does \<open>v.gain\<close> on such a payload.
\<close>

definition drumKit_on :: "(jsval \<Rightarrow> rat option) \<Rightarrow> jsval \<Rightarrow> jsval \<Rightarrow> error + jsval" where
  "drumKit_on conv parsedValue v =
     (if nullish parsedValue then Inl TypeError
      else
        let bank = default_to (get_prop parsedValue ''bank'') (Str ''RolandTR808'');
            gain = default_to (get_prop parsedValue ''gain'') (Num 1);
            effects = rest_props [''bank'', ''gain''] parsedValue
        in if nullish v then Inl TypeError
           else Inr (Obj
             (set_prop
               (set_prop (spread (own_props v) effects) ''bank'' bank)
               ''gain'' (js_mul conv (coalesce (get_prop v ''gain'') (Num 1)) gain))))"

definition drumKit_default :: jsval where
  "drumKit_default = Obj [(''bank'', Str ''RolandTR808''), (''gain'', Num 1)]"

definition drumKit_hap ::
  "(string \<Rightarrow> jsval option) \<Rightarrow> (jsval \<Rightarrow> rat option) \<Rightarrow> flag_store \<Rightarrow> string \<Rightarrow> jsval \<Rightarrow>
   't hap \<Rightarrow> error + 't hap" where
  "drumKit_hap json_parse conv flags flagKey defaultArg h =
     (let defaultValue = default_to defaultArg drumKit_default;
          flagValue = coalesce (read_flag flags flagKey) defaultValue;
          parsedValue = decode json_parse flagValue
      in hap_withValue (drumKit_on conv parsedValue) h)"

definition drumKit ::
  "(string \<Rightarrow> jsval option) \<Rightarrow> (jsval \<Rightarrow> rat option) \<Rightarrow> flag_store \<Rightarrow> string \<Rightarrow> jsval \<Rightarrow>
   ('q, 't) pattern \<Rightarrow> 'q \<Rightarrow> error + 't hap list" where
  "drumKit json_parse conv flags flagKey defaultArg self =
     withHap (drumKit_hap json_parse conv flags flagKey defaultArg) self"

definition bassSound_on :: "(jsval \<Rightarrow> rat option) \<Rightarrow> jsval \<Rightarrow> jsval \<Rightarrow> error + jsval" where
  "bassSound_on conv parsedValue v =
     (if nullish parsedValue then Inl TypeError
      else
        let sound = default_to (get_prop parsedValue ''sound'') (Str ''gm_synth_bass_2'');
            lpf = get_prop parsedValue ''lpf'';
            gain = default_to (get_prop parsedValue ''gain'') (Num 1);
            otherEffects = rest_props [''sound'', ''lpf'', ''gain''] parsedValue
        in if nullish v then Inl TypeError
           else
             let newValue =
                   set_prop
                     (set_prop (spread (own_props v) otherEffects) ''s'' sound)
                     ''gain'' (js_mul conv (coalesce (get_prop v ''gain'') (Num 1)) gain);
                 newValue1 = (if lpf \<noteq> Undefined then set_prop newValue ''lpf'' lpf else newValue)
             in Inr (Obj newValue1))"

definition bassSound_default :: jsval where
  "bassSound_default =
     Obj [(''sound'', Str ''gm_synth_bass_2''), (''lpf'', Num 1800), (''gain'', Num 1)]"

definition bassSound_hap ::
  "(string \<Rightarrow> jsval option) \<Rightarrow> (jsval \<Rightarrow> rat option) \<Rightarrow> flag_store \<Rightarrow> string \<Rightarrow> jsval \<Rightarrow>
   't hap \<Rightarrow> error + 't hap" where
  "bassSound_hap json_parse conv flags flagKey defaultArg h =
     (let defaultValue = default_to defaultArg bassSound_default;
          flagValue = coalesce (read_flag flags flagKey) defaultValue;
          parsedValue = decode json_parse flagValue
      in hap_withValue (bassSound_on conv parsedValue) h)"

definition bassSound ::
  "(string \<Rightarrow> jsval option) \<Rightarrow> (jsval \<Rightarrow> rat option) \<Rightarrow> flag_store \<Rightarrow> string \<Rightarrow> jsval \<Rightarrow>
   ('q, 't) pattern \<Rightarrow> 'q \<Rightarrow> error + 't hap list" where
  "bassSound json_parse conv flags flagKey defaultArg self =
     withHap (bassSound_hap json_parse conv flags flagKey defaultArg) self"

definition leadSound_on :: "(jsval \<Rightarrow> rat option) \<Rightarrow> jsval \<Rightarrow> jsval \<Rightarrow> error + jsval" where
  "leadSound_on conv parsedValue v =
     (if nullish parsedValue then Inl TypeError
      else
        let sound = default_to (get_prop parsedValue ''sound'') (Str ''sawtooth'');
            lpf = get_prop parsedValue ''lpf'';
            lpq = get_prop parsedValue ''lpq'';
            gain = default_to (get_prop parsedValue ''gain'') (Num 1);
            otherEffects = rest_props [''sound'', ''lpf'', ''lpq'', ''gain''] parsedValue
        in if nullish v then Inl TypeError
           else
             let newValue =
                   set_prop
                     (set_prop (spread (own_props v) otherEffects) ''s'' sound)
                     ''gain'' (js_mul conv (coalesce (get_prop v ''gain'') (Num 1)) gain);
                 newValue1 = (if lpf \<noteq> Undefined then set_prop newValue ''lpf'' lpf else newValue);
                 newValue2 = (if lpq \<noteq> Undefined then set_prop newValue1 ''lpq'' lpq else newValue1)
             in Inr (Obj newValue2))"

definition leadSound_default :: jsval where
  "leadSound_default =
     Obj [(''sound'', Str ''sawtooth''), (''lpf'', Num 300), (''lpq'', Num 0), (''gain'', Num 1)]"

definition leadSound_hap ::
  "(string \<Rightarrow> jsval option) \<Rightarrow> (jsval \<Rightarrow> rat option) \<Rightarrow> flag_store \<Rightarrow> string \<Rightarrow> jsval \<Rightarrow>
   't hap \<Rightarrow> error + 't hap" where
  "leadSound_hap json_parse conv flags flagKey defaultArg h =
     (let defaultValue = default_to defaultArg leadSound_default;
          flagValue = coalesce (read_flag flags flagKey) defaultValue;
          parsedValue = decode json_parse flagValue
      in hap_withValue (leadSound_on conv parsedValue) h)"

definition leadSound ::
  "(string \<Rightarrow> jsval option) \<Rightarrow> (jsval \<Rightarrow> rat option) \<Rightarrow> flag_store \<Rightarrow> string \<Rightarrow> jsval \<Rightarrow>
   ('q, 't) pattern \<Rightarrow> 'q \<Rightarrow> error + 't hap list" where
  "leadSound json_parse conv flags flagKey defaultArg self =
     withHap (leadSound_hap json_parse conv flags flagKey defaultArg) self"

section \<open>Effects\<close>

text \<open>
  What a call does to the outside, in the order it does it: messages on the console,
  calls of the global tempo primitives, and invocations of the caller's pattern factories.
\<close>

datatype effect =
    ConsoleError string
  | ConsoleWarn string
  | CallSetcpm jsval
  | CallSetCpm jsval
  | InvokeFactory string

section \<open>The scalar bridge\<close>

text \<open>The regular expression \<open>/[<>\[\]*!@,]/\<close> on a string; false on anything else.\<close>

definition hasMiniNotation :: "jsval \<Rightarrow> bool" where
  "hasMiniNotation v =
     (case v of Str s \<Rightarrow> list_ex (\<lambda>c. c \<in> set ''<>[]*!@,'') s | _ \<Rightarrow> False)"

text \<open>
  The variables a bridge instance closes over. \<open>cachedPattern\<close> starts as \<open>null\<close>, which
  is \<open>None\<close> here; calling \<open>query\<close> on it would throw.
\<close>

record ('q, 't) pattern_cache =
  cachedPattern :: "('q, 't) pattern option"

record ('q, 't) flag_cache = "('q, 't) pattern_cache" +
  cachedValue :: jsval

definition flag_cache_init :: "('q, 't) flag_cache" where
  "flag_cache_init = \<lparr>cachedPattern = None, cachedValue = Null\<rparr>"

definition query_cached ::
  "('q, 't) pattern option \<Rightarrow> 'q \<Rightarrow> error + 't hap list" where
  "query_cached p state = (case p of None \<Rightarrow> Inl TypeError | Some pat \<Rightarrow> Inr (pat state))"

text \<open>
  One query of the pattern \<open>flag (key, defaultValue)\<close> returns. \<open>mini\<close> is the parser of
  the pattern mini-language, \<open>None\<close> where it throws; \<open>pure\<close> is the engine's constant
  pattern. The value compared with \<open>cachedValue\<close> is a string at that point, so \<open>!==\<close> is
  inequality of values. The result is the events, the cache after the query and the
  effects of the query.
\<close>

definition flag_on ::
  "(jsval \<Rightarrow> ('q, 't) pattern option) \<Rightarrow> (jsval \<Rightarrow> ('q, 't) pattern) \<Rightarrow> string \<Rightarrow> jsval \<Rightarrow>
   ('q, 't) flag_cache \<Rightarrow> 'q \<Rightarrow> (error + 't hap list) \<times> ('q, 't) flag_cache \<times> effect list" where
  "flag_on mini pure key v cache state =
     (if hasMiniNotation v then
        (if v \<noteq> cachedValue cache then
           (case mini v of
              Some parsed \<Rightarrow>
                (let cache1 = cache\<lparr>cachedPattern := Some parsed, cachedValue := v\<rparr>
                 in (query_cached (cachedPattern cache1) state, cache1, []))
            | None \<Rightarrow>
                (Inr (pure v state), cache,
                 [ConsoleError (''[LaunchDarkly] Failed to parse mini-notation for flag '' @ key)]))
         else (query_cached (cachedPattern cache) state, cache, []))
      else (Inr (pure v state), cache, []))"

definition flag ::
  "(jsval \<Rightarrow> ('q, 't) pattern option) \<Rightarrow> (jsval \<Rightarrow> ('q, 't) pattern) \<Rightarrow> flag_store \<Rightarrow> string \<Rightarrow>
   jsval \<Rightarrow> ('q, 't) flag_cache \<Rightarrow> 'q \<Rightarrow>
   (error + 't hap list) \<times> ('q, 't) flag_cache \<times> effect list" where
  "flag mini pure flags key defaultValue cache state =
     (let v = coalesce (read_flag flags key) defaultValue
      in flag_on mini pure key v cache state)"

section \<open>The cached variant selector\<close>

text \<open>
  An own entry of the caller's registry is a factory, a function of no arguments that
  returns a pattern, or a pattern itself; \<open>variations name\<close> is the own entry under a name.
  The registry is a plain object, so a read \<open>variations[name]\<close> of a name without an own
  entry continues in the prototype, as for \<open>flags\<close>, and yields what every object inherits
  under that name.
\<close>

datatype ('q, 't) entry =
    Factory "('q, 't) pattern"
  | Instance "('q, 't) pattern"
  | Inherited jsval

definition read_variation ::
  "(string \<Rightarrow> ('q, 't) entry option) \<Rightarrow> string \<Rightarrow> ('q, 't) entry option" where
  "read_variation variations name =
     (case variations name of
        Some e \<Rightarrow> Some e
      | None \<Rightarrow>
          (case map_of object_prototype name of
             Some v \<Rightarrow> Some (Inherited v)
           | None \<Rightarrow> None))"

text \<open>
  What the variable \<open>cachedPattern\<close> of the selector holds: \<open>null\<close> at the start, then
  whatever the entry gave, a pattern or, for an inherited entry, some other value.
  \<open>query\<close> exists on a pattern only; on anything else the call throws.
\<close>

datatype ('q, 't) cached =
    NoPattern
  | Pattern "('q, 't) pattern"
  | NotPattern jsval

fun query_held :: "('q, 't) cached \<Rightarrow> 'q \<Rightarrow> error + 't hap list" where
  "query_held (Pattern pat) state = Inr (pat state)"
| "query_held NoPattern state = Inl TypeError"
| "query_held (NotPattern v) state = Inl TypeError"

text \<open>
  \<open>typeof patternFactory === 'function' ? patternFactory() : patternFactory\<close>. A factory is
  called and returns its pattern. An inherited function is called as well, with no
  arguments and no receiver: \<open>call\<close> gives what it returns, \<open>None\<close> where it throws.
\<close>

fun materialize ::
  "(string \<Rightarrow> jsval option) \<Rightarrow> ('q, 't) entry \<Rightarrow> ('q, 't) cached option" where
  "materialize call (Factory p) = Some (Pattern p)"
| "materialize call (Instance p) = Some (Pattern p)"
| "materialize call (Inherited (Fun f)) = map_option NotPattern (call f)"
| "materialize call (Inherited v) = Some (NotPattern v)"

fun invocation :: "string \<Rightarrow> ('q, 't) entry \<Rightarrow> effect list" where
  "invocation name (Factory p) = [InvokeFactory name]"
| "invocation name (Instance p) = []"
| "invocation name (Inherited (Fun f)) = [InvokeFactory name]"
| "invocation name (Inherited v) = []"

text \<open>
  The property key of a value used as an index: a string is its own key, another value is
  converted by the parameter \<open>toKey\<close>.
\<close>

definition property_key :: "(jsval \<Rightarrow> string) \<Rightarrow> jsval \<Rightarrow> string" where
  "property_key toKey v = (case v of Str s \<Rightarrow> s | _ \<Rightarrow> toKey v)"

text \<open>
  \<open>a === b\<close>. Arrays, objects and functions are compared by identity, which the values
  here do not carry: for two of them the answer is the parameter \<open>same\<close>.
\<close>

fun by_reference :: "jsval \<Rightarrow> bool" where
  "by_reference (Arr xs) = True"
| "by_reference (Obj fs) = True"
| "by_reference (Fun f) = True"
| "by_reference v = False"

definition strict_eq :: "(jsval \<Rightarrow> jsval \<Rightarrow> bool) \<Rightarrow> jsval \<Rightarrow> jsval \<Rightarrow> bool" where
  "strict_eq same a b =
     (if by_reference a \<and> by_reference b then same a b else a = b \<and> a \<noteq> NaN)"

record ('q, 't) lead_cache =
  cachedVariationKey :: jsval
  cachedArrangement :: "('q, 't) cached"

definition lead_cache_init :: "('q, 't) lead_cache" where
  "lead_cache_init = \<lparr>cachedVariationKey = Null, cachedArrangement = NoPattern\<rparr>"

text \<open>
  \<open>variations[variationKey] ?? variations[defaultVariation]\<close>, together with the name under
  which the entry was found. No entry, own or inherited, is \<open>undefined\<close> or \<open>null\<close>, and
  none is falsy.
\<close>

definition find_factory ::
  "(jsval \<Rightarrow> string) \<Rightarrow> (string \<Rightarrow> ('q, 't) entry option) \<Rightarrow> jsval \<Rightarrow> jsval \<Rightarrow>
   (string \<times> ('q, 't) entry) option" where
  "find_factory toKey variations variationKey defaultVariation =
     (case read_variation variations (property_key toKey variationKey) of
        Some e \<Rightarrow> Some (property_key toKey variationKey, e)
      | None \<Rightarrow>
          (case read_variation variations (property_key toKey defaultVariation) of
             Some e \<Rightarrow> Some (property_key toKey defaultVariation, e)
           | None \<Rightarrow> None))"

text \<open>
  One query of the selector; \<open>cachedArrangement\<close> is its variable \<open>cachedPattern\<close>. The
  name is stored before the entry is materialized, so a call that throws leaves the new
  name with the old pattern.
\<close>

definition getLeadArrangement_on ::
  "(jsval \<Rightarrow> string) \<Rightarrow> (jsval \<Rightarrow> jsval \<Rightarrow> bool) \<Rightarrow> (string \<Rightarrow> jsval option) \<Rightarrow> jsval \<Rightarrow>
   (string \<Rightarrow> ('q, 't) entry option) \<Rightarrow> jsval \<Rightarrow> ('q, 't) lead_cache \<Rightarrow> 'q \<Rightarrow>
   (error + 't hap list) \<times> ('q, 't) lead_cache \<times> effect list" where
  "getLeadArrangement_on toKey same call defaultVariation variations variationKey cache state =
     (case find_factory toKey variations variationKey defaultVariation of
        None \<Rightarrow>
          (Inr [], cache, [ConsoleWarn ''[LaunchDarkly] No variation found''])
      | Some (name, patternFactory) \<Rightarrow>
          (if \<not> strict_eq same variationKey (cachedVariationKey cache) then
             (let cache1 = cache\<lparr>cachedVariationKey := variationKey\<rparr>
              in case materialize call patternFactory of
                   None \<Rightarrow> (Inl TypeError, cache1, invocation name patternFactory)
                 | Some made \<Rightarrow>
                     (let cache2 = cache1\<lparr>cachedArrangement := made\<rparr>
                      in (query_held (cachedArrangement cache2) state, cache2,
                          invocation name patternFactory)))
           else (query_held (cachedArrangement cache) state, cache, [])))"

definition getLeadArrangement ::
  "(jsval \<Rightarrow> string) \<Rightarrow> (jsval \<Rightarrow> jsval \<Rightarrow> bool) \<Rightarrow> (string \<Rightarrow> jsval option) \<Rightarrow> flag_store \<Rightarrow>
   string \<Rightarrow> jsval \<Rightarrow> (string \<Rightarrow> ('q, 't) entry option) \<Rightarrow> ('q, 't) lead_cache \<Rightarrow> 'q \<Rightarrow>
   (error + 't hap list) \<times> ('q, 't) lead_cache \<times> effect list" where
  "getLeadArrangement toKey same call flags flagKey defaultVariation variations cache state =
     (let variationKey = coalesce (read_flag flags flagKey) defaultVariation
      in getLeadArrangement_on toKey same call defaultVariation variations variationKey cache
           state)"

section \<open>The provider and the module state\<close>

text \<open>
  Modelled from the spec: the provider SDK (package launchdarkly-js-client-sdk, whose
  sources are not at hand), at its boundary: a client on which listeners are registered
  per event with \<open>on\<close>, an initial snapshot \<open>allFlags()\<close>, and a "change-notification
  stream delivering \<open>{key: {current: value}}\<close> deltas". A notification runs the listeners
  registered for its event, in the order of their registration.
\<close>

datatype event = Ready | Change | Failed

record change =
  current :: jsval
  previous :: jsval

datatype notification =
    ReadyN "(string \<times> jsval) list"
  | ChangeN "(string \<times> change) list"
  | FailedN jsval

fun event_of :: "notification \<Rightarrow> event" where
  "event_of (ReadyN snapshot) = Ready"
| "event_of (ChangeN settings) = Change"
| "event_of (FailedN err) = Failed"

text \<open>
  The four functions this module registers as listeners: the three of \<open>initLaunchDarkly\<close>,
  and the one of \<open>setcpmFlag\<close>, which closes over the flag key, the default and the divisor
  of the call that created it.
\<close>

datatype listener =
    StoreReady
  | StoreChange
  | InitFailed
  | TempoChange string jsval jsval

datatype promise = Pending | Resolved | Rejected jsval

text \<open>\<open>resolve\<close> and \<open>reject\<close> settle a pending promise and do nothing to a settled one.\<close>

definition settle :: "promise \<Rightarrow> promise \<Rightarrow> promise" where
  "settle outcome p = (if p = Pending then outcome else p)"

text \<open>
  The state of the module and of its surroundings: the variable \<open>ldClient\<close> (\<open>None\<close> while
  it is \<open>undefined\<close>) with the listeners registered on the client, the object \<open>flags\<close>, the
  map \<open>tempoListeners\<close>, the promise created by \<open>initLaunchDarkly\<close>, whether
  \<open>globalThis.setcpm\<close> and \<open>globalThis.setCpm\<close> are functions, and the effects so far.
\<close>

record world =
  ldClient :: "(event \<times> listener) list option"
  flags :: flag_store
  tempoListeners :: "string \<Rightarrow> listener option"
  init_promise :: promise
  setcpm_defined :: bool
  setCpm_defined :: bool
  effects :: "effect list"

definition world_init :: "bool \<Rightarrow> bool \<Rightarrow> world" where
  "world_init has_setcpm has_setCpm =
     \<lparr>ldClient = None, flags = Map.empty, tempoListeners = Map.empty, init_promise = Pending,
      setcpm_defined = has_setcpm, setCpm_defined = has_setCpm, effects = []\<rparr>"

text \<open>
  \<open>initLaunchDarkly\<close> returns a promise. With a client already there it returns at once,
  which in an \<open>async\<close> function is a promise already resolved; otherwise it returns the
  promise that the listeners settle. The random user key plays no role and is left out.
\<close>

datatype returned = AlreadyResolved | InitPromise

definition initLaunchDarkly :: "world \<Rightarrow> returned \<times> world" where
  "initLaunchDarkly w =
     (case ldClient w of
        Some client \<Rightarrow> (AlreadyResolved, w)
      | None \<Rightarrow>
          (InitPromise,
           w\<lparr>ldClient := Some [(Ready, StoreReady), (Change, StoreChange), (Failed, InitFailed)],
             init_promise := Pending\<rparr>))"

fun promise_state :: "returned \<Rightarrow> world \<Rightarrow> promise" where
  "promise_state AlreadyResolved w = Resolved"
| "promise_state InitPromise w = init_promise w"

section \<open>The tempo synchronizer\<close>

text \<open>
  \<open>parseFloat\<close> and the quotient \<open>numValue / divisor\<close> are parameters: the tempo is handed
  to the tempo primitive as they return it.
\<close>

definition getValue_on :: "(string \<Rightarrow> jsval) \<Rightarrow> (jsval \<Rightarrow> jsval \<Rightarrow> jsval) \<Rightarrow> jsval \<Rightarrow> jsval \<Rightarrow> jsval" where
  "getValue_on parseFloat quot v divisor =
     (let numValue = (case v of Str s \<Rightarrow> parseFloat s | _ \<Rightarrow> v)
      in quot numValue divisor)"

definition getValue ::
  "(string \<Rightarrow> jsval) \<Rightarrow> (jsval \<Rightarrow> jsval \<Rightarrow> jsval) \<Rightarrow> flag_store \<Rightarrow> string \<Rightarrow> jsval \<Rightarrow> jsval \<Rightarrow> jsval" where
  "getValue parseFloat quot store flagKey defaultValue divisor =
     (let v = coalesce (read_flag store flagKey) defaultValue
      in getValue_on parseFloat quot v divisor)"

definition applyTempo_cpm :: "jsval \<Rightarrow> world \<Rightarrow> world" where
  "applyTempo_cpm cpm w =
     (if setcpm_defined w then w\<lparr>effects := effects w @ [CallSetcpm cpm]\<rparr>
      else if setCpm_defined w then w\<lparr>effects := effects w @ [CallSetCpm cpm]\<rparr>
      else w\<lparr>effects := effects w @
             [ConsoleWarn ''[LaunchDarkly] setcpm not available - tempo change deferred'']\<rparr>)"

definition applyTempo ::
  "(string \<Rightarrow> jsval) \<Rightarrow> (jsval \<Rightarrow> jsval \<Rightarrow> jsval) \<Rightarrow> string \<Rightarrow> jsval \<Rightarrow> jsval \<Rightarrow> world \<Rightarrow> world" where
  "applyTempo parseFloat quot flagKey defaultValue divisor w =
     applyTempo_cpm (getValue parseFloat quot (flags w) flagKey defaultValue divisor) w"

text \<open>
  The second half of \<open>setcpmFlag\<close>: the entry in \<open>tempoListeners\<close> and, with a client, the
  listener on its change event.
\<close>

definition register_listener :: "string \<Rightarrow> jsval \<Rightarrow> jsval \<Rightarrow> world \<Rightarrow> world" where
  "register_listener flagKey defaultValue divisor w =
     (if tempoListeners w flagKey = None then
        (let w1 = w\<lparr>tempoListeners :=
                      (tempoListeners w)(flagKey \<mapsto> TempoChange flagKey defaultValue divisor)\<rparr>
         in case ldClient w1 of
              Some client \<Rightarrow>
                w1\<lparr>ldClient :=
                     Some (client @ [(Change, TempoChange flagKey defaultValue divisor)])\<rparr>
            | None \<Rightarrow> w1)
      else w)"

text \<open>\<open>pure(0).withValue(() => ({}))\<close>, the pattern \<open>setcpmFlag\<close> returns.\<close>

definition setcpmFlag_pattern :: "(jsval \<Rightarrow> ('q, 't) pattern) \<Rightarrow> ('q, 't) pattern" where
  "setcpmFlag_pattern pure = withValue (\<lambda>v. Obj []) (pure (Num 0))"

text \<open>What \<open>setcpmFlag\<close> does before it returns.\<close>

definition setcpmFlag_effect ::
  "(string \<Rightarrow> jsval) \<Rightarrow> (jsval \<Rightarrow> jsval \<Rightarrow> jsval) \<Rightarrow> string \<Rightarrow> jsval \<Rightarrow> jsval \<Rightarrow> world \<Rightarrow> world" where
  "setcpmFlag_effect parseFloat quot flagKey defaultArg divisorArg w =
     (let defaultValue = default_to defaultArg (Num 100);
          divisor = default_to divisorArg (Num 1);
          w1 = applyTempo parseFloat quot flagKey defaultValue divisor w
      in register_listener flagKey defaultValue divisor w1)"

definition setcpmFlag ::
  "(jsval \<Rightarrow> ('q, 't) pattern) \<Rightarrow> (string \<Rightarrow> jsval) \<Rightarrow> (jsval \<Rightarrow> jsval \<Rightarrow> jsval) \<Rightarrow>
   string \<Rightarrow> jsval \<Rightarrow> jsval \<Rightarrow> world \<Rightarrow> ('q, 't) pattern \<times> world" where
  "setcpmFlag pure parseFloat quot flagKey defaultArg divisorArg w =
     (setcpmFlag_pattern pure, setcpmFlag_effect parseFloat quot flagKey defaultArg divisorArg w)"

section \<open>Notifications\<close>

text \<open>\<open>Object.assign(flags, snapshot)\<close> and the loop over \<open>Object.keys(settings)\<close>.\<close>

definition assign :: "flag_store \<Rightarrow> (string \<times> jsval) list \<Rightarrow> flag_store" where
  "assign store kvs = foldl (\<lambda>st (k, v). st(k \<mapsto> v)) store kvs"

definition assign_current :: "flag_store \<Rightarrow> (string \<times> change) list \<Rightarrow> flag_store" where
  "assign_current store settings = foldl (\<lambda>st (k, c). st(k \<mapsto> current c)) store settings"

text \<open>
  \<open>settings[flagKey]\<close> as a condition: an own entry of \<open>settings\<close> is an object, hence
  truthy; without one the read continues in the prototype, as for \<open>flags\<close>.
\<close>

definition carries :: "(string \<times> change) list \<Rightarrow> string \<Rightarrow> bool" where
  "carries settings flagKey =
     (case map_of settings flagKey of Some c \<Rightarrow> True | None \<Rightarrow> truthy (inherited flagKey))"

fun run_listener ::
  "(string \<Rightarrow> jsval) \<Rightarrow> (jsval \<Rightarrow> jsval \<Rightarrow> jsval) \<Rightarrow> listener \<Rightarrow> notification \<Rightarrow> world \<Rightarrow> world" where
  "run_listener parseFloat quot StoreReady (ReadyN snapshot) w =
     w\<lparr>flags := assign (flags w) snapshot, init_promise := settle Resolved (init_promise w)\<rparr>"
| "run_listener parseFloat quot StoreChange (ChangeN settings) w =
     w\<lparr>flags := assign_current (flags w) settings\<rparr>"
| "run_listener parseFloat quot InitFailed (FailedN err) w =
     w\<lparr>effects := effects w @ [ConsoleError ''[LaunchDarkly] Failed to initialize:''],
       init_promise := settle (Rejected err) (init_promise w)\<rparr>"
| "run_listener parseFloat quot (TempoChange flagKey defaultValue divisor) (ChangeN settings) w =
     (if carries settings flagKey
      then applyTempo parseFloat quot flagKey defaultValue divisor w
      else w)"
| "run_listener parseFloat quot l n w = w"

definition run_listeners ::
  "(string \<Rightarrow> jsval) \<Rightarrow> (jsval \<Rightarrow> jsval \<Rightarrow> jsval) \<Rightarrow> (event \<times> listener) list \<Rightarrow> notification \<Rightarrow>
   world \<Rightarrow> world" where
  "run_listeners parseFloat quot ls n w =
     foldl (\<lambda>w1 (ev, l). if ev = event_of n then run_listener parseFloat quot l n w1 else w1) w ls"

definition notify ::
  "(string \<Rightarrow> jsval) \<Rightarrow> (jsval \<Rightarrow> jsval \<Rightarrow> jsval) \<Rightarrow> notification \<Rightarrow> world \<Rightarrow> world" where
  "notify parseFloat quot n w =
     (case ldClient w of None \<Rightarrow> w | Some client \<Rightarrow> run_listeners parseFloat quot client n w)"

text \<open>The listeners of \<open>setcpmFlag\<close> for a key that the client carries on its change event.\<close>

fun tempo_listener_for :: "string \<Rightarrow> event \<times> listener \<Rightarrow> bool" where
  "tempo_listener_for key (Change, TempoChange k d dv) = (k = key)"
| "tempo_listener_for key el = False"

definition registered :: "string \<Rightarrow> world \<Rightarrow> (event \<times> listener) list" where
  "registered key w =
     (case ldClient w of None \<Rightarrow> [] | Some client \<Rightarrow> filter (tempo_listener_for key) client)"

text \<open>A history of the module: calls of its two stateful exports and notifications.\<close>

datatype action =
    Init
  | Sync string jsval jsval
  | Notify notification

fun step ::
  "(string \<Rightarrow> jsval) \<Rightarrow> (jsval \<Rightarrow> jsval \<Rightarrow> jsval) \<Rightarrow> action \<Rightarrow> world \<Rightarrow> world" where
  "step parseFloat quot Init w = snd (initLaunchDarkly w)"
| "step parseFloat quot (Sync flagKey defaultArg divisorArg) w =
     setcpmFlag_effect parseFloat quot flagKey defaultArg divisorArg w"
| "step parseFloat quot (Notify n) w = notify parseFloat quot n w"

definition run ::
  "(string \<Rightarrow> jsval) \<Rightarrow> (jsval \<Rightarrow> jsval \<Rightarrow> jsval) \<Rightarrow> action list \<Rightarrow> world \<Rightarrow> world" where
  "run parseFloat quot acts w = foldl (\<lambda>w1 a. step parseFloat quot a w1) w acts"

text \<open>
  The one effect of \<open>applyTempo\<close>: a call of the tempo primitive that is defined, or the
  warning.
\<close>

definition tempo_effect :: "world \<Rightarrow> jsval \<Rightarrow> effect" where
  "tempo_effect w cpm =
     (if setcpm_defined w then CallSetcpm cpm
      else if setCpm_defined w then CallSetCpm cpm
      else ConsoleWarn ''[LaunchDarkly] setcpm not available - tempo change deferred'')"

text \<open>
  The listeners a client carries in any state the module can reach: the three of
  \<open>initLaunchDarkly\<close>, then those of \<open>setcpmFlag\<close>, one per key, each with its entry in
  \<open>tempoListeners\<close>.
\<close>

definition init_listeners :: "(event \<times> listener) list" where
  "init_listeners = [(Ready, StoreReady), (Change, StoreChange), (Failed, InitFailed)]"

fun hook :: "string \<times> jsval \<times> jsval \<Rightarrow> event \<times> listener" where
  "hook (k, d, dv) = (Change, TempoChange k d dv)"

definition client_shape :: "world \<Rightarrow> (string \<times> jsval \<times> jsval) list \<Rightarrow> bool" where
  "client_shape w ts =
     (ldClient w = Some (init_listeners @ map hook ts) \<and> distinct (map fst ts) \<and>
      list_all (\<lambda>t. tempoListeners w (fst t) \<noteq> None) ts)"

text \<open>A state is well shaped when it has no client yet, or a client of that shape.\<close>

definition reachable_shape :: "world \<Rightarrow> bool" where
  "reachable_shape w = (ldClient w = None \<or> (\<exists>ts. client_shape w ts))"

section \<open>The engine's constant pattern\<close>

text \<open>
  Modelled from the spec: the engine's \<open>pure\<close> (package @strudel/core, whose sources are
  not at hand), the "constant-valued pattern". A query window is a time span; the
  constant pattern has one event for every cycle the window meets, with the cycle as the
  event's whole, the part of the window inside the cycle as its part, and the constant as
  its payload. A window of no width has one event, and a window that ends before it
  begins has none.
\<close>

record timespan =
  span_begin :: rat
  span_end :: rat

definition sam :: "rat \<Rightarrow> rat" where
  "sam t = of_int \<lfloor>t\<rfloor>"

definition nextSam :: "rat \<Rightarrow> rat" where
  "nextSam t = sam t + 1"

function cycle_pieces :: "rat \<Rightarrow> rat \<Rightarrow> timespan list" where
  "cycle_pieces b e =
     (if b < e then
        (if sam b = sam e then [\<lparr>span_begin = b, span_end = e\<rparr>]
         else \<lparr>span_begin = b, span_end = nextSam b\<rparr> # cycle_pieces (nextSam b) e)
      else [])"
  by pat_completeness auto
termination
proof (relation "measure (\<lambda>(b, e). nat (\<lfloor>e\<rfloor> - \<lfloor>b\<rfloor>))")
  show "wf (measure (\<lambda>(b :: rat, e :: rat). nat (\<lfloor>e\<rfloor> - \<lfloor>b\<rfloor>)))"
    by simp
next
  fix b e :: rat
  assume less: "b < e" and other: "sam b \<noteq> sam e"
  have "\<lfloor>b\<rfloor> \<le> \<lfloor>e\<rfloor>"
    using less by (simp add: floor_mono)
  moreover have "\<lfloor>b\<rfloor> \<noteq> \<lfloor>e\<rfloor>"
    using other by (auto simp: sam_def)
  ultimately have "\<lfloor>b\<rfloor> < \<lfloor>e\<rfloor>"
    by simp
  moreover have "\<lfloor>nextSam b\<rfloor> = \<lfloor>b\<rfloor> + 1"
    by (simp add: nextSam_def sam_def)
  ultimately show "((nextSam b, e), (b, e)) \<in> measure (\<lambda>(b, e). nat (\<lfloor>e\<rfloor> - \<lfloor>b\<rfloor>))"
    by simp
qed

declare cycle_pieces.simps [simp del]

definition spanCycles :: "timespan \<Rightarrow> timespan list" where
  "spanCycles window =
     (if span_begin window = span_end window then [window]
      else cycle_pieces (span_begin window) (span_end window))"

definition wholeCycle :: "rat \<Rightarrow> timespan" where
  "wholeCycle t = \<lparr>span_begin = sam t, span_end = nextSam t\<rparr>"

definition pure_cycles :: "jsval \<Rightarrow> (timespan, timespan \<times> timespan) pattern" where
  "pure_cycles v state =
     map (\<lambda>subspan. \<lparr>extent = (wholeCycle (span_begin subspan), subspan), hap_value = v\<rparr>)
         (spanCycles state)"

text \<open>The bundle a merge works with: the flag read, the default, the decoding.\<close>

definition resolved_bundle ::
  "(string \<Rightarrow> jsval option) \<Rightarrow> flag_store \<Rightarrow> string \<Rightarrow> jsval \<Rightarrow> jsval \<Rightarrow> jsval" where
  "resolved_bundle json_parse store flagKey defaultArg declared =
     decode json_parse (coalesce (read_flag store flagKey) (default_to defaultArg declared))"

section \<open>Properties\<close>

subsection \<open>Reading properties of merged objects\<close>

lemma map_of_set_prop:
  "map_of (set_prop fs name x) k = (if k = name then Some x else map_of fs k)"
  by (induction fs name x rule: set_prop.induct) auto

lemma map_of_spread_other:
  "k \<notin> fst ` set props \<Longrightarrow> map_of (spread target props) k = map_of target k"
  unfolding spread_def
proof (induction props arbitrary: target)
  case Nil
  then show ?case by simp
next
  case (Cons p props)
  obtain k1 x1 where p: "p = (k1, x1)" by (cases p)
  from Cons.prems p have "k \<noteq> k1" and rest: "k \<notin> fst ` set props" by auto
  then show ?case
    using Cons.IH [OF rest, of "set_prop target k1 x1"] p
    by (simp add: map_of_set_prop)
qed

lemma get_prop_Obj_set_prop:
  "get_prop (Obj (set_prop fs name x)) k = (if k = name then x else get_prop (Obj fs) k)"
  by (simp add: get_prop_def map_of_set_prop)

lemma get_prop_Obj_spread_other:
  "k \<notin> fst ` set props \<Longrightarrow> get_prop (Obj (spread (own_props v) props)) k = get_prop v k"
  by (simp add: get_prop_def map_of_spread_other)

lemma rest_props_excludes: "k \<in> set names \<Longrightarrow> k \<notin> fst ` set (rest_props names v)"
  by (auto simp: rest_props_def)

lemma drumKit_on_gain:
  assumes "\<not> nullish parsedValue" "\<not> nullish v"
  shows "\<exists>fs. drumKit_on conv parsedValue v = Inr (Obj fs) \<and>
              get_prop (Obj fs) ''gain'' = js_mul conv (coalesce (get_prop v ''gain'') (Num 1))
                (default_to (get_prop parsedValue ''gain'') (Num 1)) \<and>
              get_prop (Obj fs) ''bank'' = default_to (get_prop parsedValue ''bank'') (Str ''RolandTR808'')"
  using assms by (simp add: drumKit_on_def Let_def get_prop_Obj_set_prop)

lemma bassSound_on_fields:
  assumes "\<not> nullish parsedValue" "\<not> nullish v"
  shows "\<exists>fs. bassSound_on conv parsedValue v = Inr (Obj fs) \<and>
              get_prop (Obj fs) ''gain'' = js_mul conv (coalesce (get_prop v ''gain'') (Num 1))
                (default_to (get_prop parsedValue ''gain'') (Num 1)) \<and>
              get_prop (Obj fs) ''s'' = default_to (get_prop parsedValue ''sound'') (Str ''gm_synth_bass_2'') \<and>
              get_prop (Obj fs) ''lpf'' =
                (if get_prop parsedValue ''lpf'' = Undefined then get_prop v ''lpf''
                 else get_prop parsedValue ''lpf'')"
  using assms
  by (simp add: bassSound_on_def Let_def get_prop_Obj_set_prop
      get_prop_Obj_spread_other rest_props_excludes)

lemma leadSound_on_fields:
  assumes "\<not> nullish parsedValue" "\<not> nullish v"
  shows "\<exists>fs. leadSound_on conv parsedValue v = Inr (Obj fs) \<and>
              get_prop (Obj fs) ''gain'' = js_mul conv (coalesce (get_prop v ''gain'') (Num 1))
                (default_to (get_prop parsedValue ''gain'') (Num 1)) \<and>
              get_prop (Obj fs) ''s'' = default_to (get_prop parsedValue ''sound'') (Str ''sawtooth'') \<and>
              get_prop (Obj fs) ''lpf'' =
                (if get_prop parsedValue ''lpf'' = Undefined then get_prop v ''lpf''
                 else get_prop parsedValue ''lpf'') \<and>
              get_prop (Obj fs) ''lpq'' =
                (if get_prop parsedValue ''lpq'' = Undefined then get_prop v ''lpq''
                 else get_prop parsedValue ''lpq'')"
  using assms
  by (simp add: leadSound_on_def Let_def get_prop_Obj_set_prop
      get_prop_Obj_spread_other rest_props_excludes)

lemma hap_withValue_Inr:
  "f (hap_value h) = Inr v \<Longrightarrow> hap_withValue f h = Inr (h\<lparr>hap_value := v\<rparr>)"
  by (simp add: hap_withValue_def)


subsection \<open>The boolean gate\<close>

text \<open>
  C6. For every query window the gate returns exactly the events of the base pattern when
  the resolved flag value is truthy, and the empty event sequence when it is falsy. The
  result is a function of the store and the window of this query alone: nothing is kept
  from one query to the next, so the decision is taken anew on every query.
\<close>

theorem toggle_all_or_nothing:
  fixes self :: "('q, 't) pattern"
  shows "(truthy (coalesce (read_flag store flagKey) (default_to defaultArg (Bool True)))
            \<longrightarrow> toggle store flagKey defaultArg self st = self st) \<and>
         (\<not> truthy (coalesce (read_flag store flagKey) (default_to defaultArg (Bool True)))
            \<longrightarrow> toggle store flagKey defaultArg self st = [])"
  by (simp add: toggle_def toggle_on_def)

theorem toggle_all_or_nothing_witness:
  "truthy (coalesce (read_flag Map.empty ''drums-enabled'') (default_to Undefined (Bool True))) \<and>
   toggle Map.empty ''drums-enabled'' Undefined (\<lambda>q. [\<lparr>extent = q, hap_value = Str ''bd''\<rparr>]) (0 :: nat)
     = [\<lparr>extent = 0, hap_value = Str ''bd''\<rparr>] \<and>
   \<not> truthy (coalesce (read_flag [''drums-enabled'' \<mapsto> Bool False] ''drums-enabled'')
                (default_to (Bool True) (Bool True))) \<and>
   toggle [''drums-enabled'' \<mapsto> Bool False] ''drums-enabled'' (Bool True)
     (\<lambda>q. [\<lparr>extent = q, hap_value = Str ''bd''\<rparr>]) (0 :: nat) = []"
  using toggle_all_or_nothing [of Map.empty "''drums-enabled''" Undefined
          "\<lambda>q. [\<lparr>extent = q, hap_value = Str ''bd''\<rparr>]" "0 :: nat"]
        toggle_all_or_nothing [of "[''drums-enabled'' \<mapsto> Bool False]" "''drums-enabled''" "Bool True"
          "\<lambda>q. [\<lparr>extent = q, hap_value = Str ''bd''\<rparr>]" "0 :: nat"]
  by (simp add: read_flag_def inherited_def object_prototype_def coalesce_def default_to_def)


subsection \<open>The polyphonic layering transform\<close>

text \<open>
  C4. When the resolved flag value is an array of speeds, the events of \<open>polySpeed\<close> for
  a window are those of the base pattern sped up by the first element, followed by those
  of the base pattern sped up by the second, and so on in the order of the array; when the
  array is empty they are the events of the base pattern itself; when the value is a
  single number they are the events of the base pattern sped up by it, with no stacking.
\<close>

theorem polySpeed_layers:
  fixes self :: "('q, 't) pattern"
  assumes "speeds = coalesce (read_flag store flagKey) (default_to defaultArg (Num 1))"
  shows "(\<forall>xs. speeds = Arr xs \<and> xs \<noteq> [] \<longrightarrow>
            polySpeed fast store flagKey defaultArg self st
              = concat (map (\<lambda>speed. fast speed self st) xs)) \<and>
         (speeds = Arr [] \<longrightarrow> polySpeed fast store flagKey defaultArg self st = self st) \<and>
         (\<forall>r. speeds = Num r \<longrightarrow>
            polySpeed fast store flagKey defaultArg self st = fast (Num r) self st)"
  using assms by (auto simp: polySpeed_def polySpeed_on_def stack_def comp_def)


theorem polySpeed_layers_witness:
  "Arr [Num 16, Num 4] = coalesce (read_flag Map.empty ''melodySpeed'') (default_to (Arr [Num 16, Num 4]) (Num 1)) \<and>
   polySpeed (\<lambda>speed self q. map (\<lambda>h. h\<lparr>extent := speed # extent h\<rparr>) (self q)) Map.empty ''melodySpeed''
       (Arr [Num 16, Num 4]) (\<lambda>q. [\<lparr>extent = [], hap_value = Str ''c''\<rparr>]) (0 :: nat)
     = [\<lparr>extent = [Num 16], hap_value = Str ''c''\<rparr>,
        \<lparr>extent = [Num 4], hap_value = Str ''c''\<rparr>] \<and>
   Arr [] = coalesce (read_flag [''melodySpeed'' \<mapsto> Arr []] ''melodySpeed'') (default_to Undefined (Num 1)) \<and>
   polySpeed (\<lambda>speed self q. map (\<lambda>h. h\<lparr>extent := speed # extent h\<rparr>) (self q))
       [''melodySpeed'' \<mapsto> Arr []] ''melodySpeed''
       Undefined (\<lambda>q. [\<lparr>extent = [], hap_value = Str ''c''\<rparr>]) (0 :: nat)
     = [\<lparr>extent = [], hap_value = Str ''c''\<rparr>] \<and>
   Num 16 = coalesce (read_flag [''melodySpeed'' \<mapsto> Num 16] ''melodySpeed'') (default_to Undefined (Num 1)) \<and>
   polySpeed (\<lambda>speed self q. map (\<lambda>h. h\<lparr>extent := speed # extent h\<rparr>) (self q))
       [''melodySpeed'' \<mapsto> Num 16] ''melodySpeed''
       Undefined (\<lambda>q. [\<lparr>extent = [], hap_value = Str ''c''\<rparr>]) (0 :: nat)
     = [\<lparr>extent = [Num 16], hap_value = Str ''c''\<rparr>]"
  using polySpeed_layers [of "Arr [Num 16, Num 4]" Map.empty "''melodySpeed''" "Arr [Num 16, Num 4]"
          "\<lambda>speed self q. map (\<lambda>h. h\<lparr>extent := speed # extent h\<rparr>) (self q)"
          "\<lambda>q. [\<lparr>extent = [], hap_value = Str ''c''\<rparr>]" "0 :: nat"]
        polySpeed_layers [of "Arr []" "[''melodySpeed'' \<mapsto> Arr []]" "''melodySpeed''" Undefined
          "\<lambda>speed self q. map (\<lambda>h. h\<lparr>extent := speed # extent h\<rparr>) (self q)"
          "\<lambda>q. [\<lparr>extent = [], hap_value = Str ''c''\<rparr>]" "0 :: nat"]
        polySpeed_layers [of "Num 16" "[''melodySpeed'' \<mapsto> Num 16]" "''melodySpeed''" Undefined
          "\<lambda>speed self q. map (\<lambda>h. h\<lparr>extent := speed # extent h\<rparr>) (self q)"
          "\<lambda>q. [\<lparr>extent = [], hap_value = Str ''c''\<rparr>]" "0 :: nat"]
  by (simp add: read_flag_def inherited_def object_prototype_def coalesce_def default_to_def)

subsection \<open>The parameter bundle merges\<close>

text \<open>
  C5. For every event that one of the three merges \<open>drumKit\<close>, \<open>bassSound\<close> and
  \<open>leadSound\<close> processes, the gain of the resulting payload is the product of the gain the
  payload carried, 1 when it carried none, and of the gain of the bundle, 1 when the
  bundle has none: the existing gain is multiplied, never replaced. The merge completes
  on every payload and bundle other than \<open>undefined\<close> and \<open>null\<close>, and leaves the time
  extent of the event alone. The instances below are gain 2 with bundle gain 1.5, which
  gives 3, and gain 1 with bundle gain 1.2, which gives 1.2.
\<close>

theorem bundle_gain_multiplies:
  fixes h :: "'t hap"
  assumes "\<not> nullish (hap_value h)"
  shows "(\<not> nullish (resolved_bundle json_parse store flagKey defaultArg drumKit_default) \<longrightarrow>
            (\<exists>h'. drumKit_hap json_parse conv store flagKey defaultArg h = Inr h' \<and>
                  extent h' = extent h \<and>
                  get_prop (hap_value h') ''gain'' =
                    js_mul conv (coalesce (get_prop (hap_value h) ''gain'') (Num 1))
                      (default_to (get_prop (resolved_bundle json_parse store flagKey defaultArg
                          drumKit_default) ''gain'') (Num 1)))) \<and>
         (\<not> nullish (resolved_bundle json_parse store flagKey defaultArg bassSound_default) \<longrightarrow>
            (\<exists>h'. bassSound_hap json_parse conv store flagKey defaultArg h = Inr h' \<and>
                  extent h' = extent h \<and>
                  get_prop (hap_value h') ''gain'' =
                    js_mul conv (coalesce (get_prop (hap_value h) ''gain'') (Num 1))
                      (default_to (get_prop (resolved_bundle json_parse store flagKey defaultArg
                          bassSound_default) ''gain'') (Num 1)))) \<and>
         (\<not> nullish (resolved_bundle json_parse store flagKey defaultArg leadSound_default) \<longrightarrow>
            (\<exists>h'. leadSound_hap json_parse conv store flagKey defaultArg h = Inr h' \<and>
                  extent h' = extent h \<and>
                  get_prop (hap_value h') ''gain'' =
                    js_mul conv (coalesce (get_prop (hap_value h) ''gain'') (Num 1))
                      (default_to (get_prop (resolved_bundle json_parse store flagKey defaultArg
                          leadSound_default) ''gain'') (Num 1))))"
proof (intro conjI impI)
  assume b: "\<not> nullish (resolved_bundle json_parse store flagKey defaultArg drumKit_default)"
  from drumKit_on_gain [OF b assms, of conv] obtain fs where
    "drumKit_on conv (resolved_bundle json_parse store flagKey defaultArg drumKit_default) (hap_value h) = Inr (Obj fs)"
    "get_prop (Obj fs) ''gain'' =
       js_mul conv (coalesce (get_prop (hap_value h) ''gain'') (Num 1))
         (default_to (get_prop (resolved_bundle json_parse store flagKey defaultArg drumKit_default) ''gain'') (Num 1))"
    by blast
  then show "\<exists>h'. drumKit_hap json_parse conv store flagKey defaultArg h = Inr h' \<and>
                  extent h' = extent h \<and>
                  get_prop (hap_value h') ''gain'' =
                    js_mul conv (coalesce (get_prop (hap_value h) ''gain'') (Num 1))
                      (default_to (get_prop (resolved_bundle json_parse store flagKey defaultArg
                          drumKit_default) ''gain'') (Num 1))"
    by (simp add: drumKit_hap_def resolved_bundle_def hap_withValue_Inr)
next
  assume b: "\<not> nullish (resolved_bundle json_parse store flagKey defaultArg bassSound_default)"
  from bassSound_on_fields [OF b assms, of conv] obtain fs where
    "bassSound_on conv (resolved_bundle json_parse store flagKey defaultArg bassSound_default) (hap_value h) = Inr (Obj fs)"
    "get_prop (Obj fs) ''gain'' =
       js_mul conv (coalesce (get_prop (hap_value h) ''gain'') (Num 1))
         (default_to (get_prop (resolved_bundle json_parse store flagKey defaultArg bassSound_default) ''gain'') (Num 1))"
    by blast
  then show "\<exists>h'. bassSound_hap json_parse conv store flagKey defaultArg h = Inr h' \<and>
                  extent h' = extent h \<and>
                  get_prop (hap_value h') ''gain'' =
                    js_mul conv (coalesce (get_prop (hap_value h) ''gain'') (Num 1))
                      (default_to (get_prop (resolved_bundle json_parse store flagKey defaultArg
                          bassSound_default) ''gain'') (Num 1))"
    by (simp add: bassSound_hap_def resolved_bundle_def hap_withValue_Inr)
next
  assume b: "\<not> nullish (resolved_bundle json_parse store flagKey defaultArg leadSound_default)"
  from leadSound_on_fields [OF b assms, of conv] obtain fs where
    "leadSound_on conv (resolved_bundle json_parse store flagKey defaultArg leadSound_default) (hap_value h) = Inr (Obj fs)"
    "get_prop (Obj fs) ''gain'' =
       js_mul conv (coalesce (get_prop (hap_value h) ''gain'') (Num 1))
         (default_to (get_prop (resolved_bundle json_parse store flagKey defaultArg leadSound_default) ''gain'') (Num 1))"
    by blast
  then show "\<exists>h'. leadSound_hap json_parse conv store flagKey defaultArg h = Inr h' \<and>
                  extent h' = extent h \<and>
                  get_prop (hap_value h') ''gain'' =
                    js_mul conv (coalesce (get_prop (hap_value h) ''gain'') (Num 1))
                      (default_to (get_prop (resolved_bundle json_parse store flagKey defaultArg
                          leadSound_default) ''gain'') (Num 1))"
    by (simp add: leadSound_hap_def resolved_bundle_def hap_withValue_Inr)
qed

theorem bundle_gain_multiplies_witness:
  "\<not> nullish (hap_value \<lparr>extent = (), hap_value = Obj [(''s'', Str ''bd''), (''gain'', Num 2)]\<rparr>) \<and>
   \<not> nullish (resolved_bundle (\<lambda>s. None) [''kit'' \<mapsto> Obj [(''gain'', Num (3 / 2))]] ''kit'' Undefined
                 drumKit_default) \<and>
   \<not> nullish (resolved_bundle (\<lambda>s. None) [''kit'' \<mapsto> Obj [(''gain'', Num (3 / 2))]] ''kit'' Undefined
                 bassSound_default) \<and>
   \<not> nullish (resolved_bundle (\<lambda>s. None) [''kit'' \<mapsto> Obj [(''gain'', Num (3 / 2))]] ''kit'' Undefined
                 leadSound_default) \<and>
   (\<exists>h'. drumKit_hap (\<lambda>s. None) (\<lambda>v. None) [''kit'' \<mapsto> Obj [(''gain'', Num (3 / 2))]] ''kit'' Undefined
            \<lparr>extent = (), hap_value = Obj [(''s'', Str ''bd''), (''gain'', Num 2)]\<rparr> = Inr h' \<and>
          get_prop (hap_value h') ''gain'' = Num 3) \<and>
   (\<exists>h'. bassSound_hap (\<lambda>s. None) (\<lambda>v. None) [''kit'' \<mapsto> Obj [(''gain'', Num (3 / 2))]] ''kit'' Undefined
            \<lparr>extent = (), hap_value = Obj [(''s'', Str ''bd''), (''gain'', Num 2)]\<rparr> = Inr h' \<and>
          get_prop (hap_value h') ''gain'' = Num 3) \<and>
   (\<exists>h'. leadSound_hap (\<lambda>s. None) (\<lambda>v. None) [''kit'' \<mapsto> Obj [(''gain'', Num (3 / 2))]] ''kit'' Undefined
            \<lparr>extent = (), hap_value = Obj [(''s'', Str ''bd''), (''gain'', Num 2)]\<rparr> = Inr h' \<and>
          get_prop (hap_value h') ''gain'' = Num 3) \<and>
   (\<exists>h'. drumKit_hap (\<lambda>s. None) (\<lambda>v. None) Map.empty ''kit'' (Obj [(''gain'', Num (6 / 5))])
            \<lparr>extent = (), hap_value = Obj [(''s'', Str ''bd''), (''gain'', Num 1)]\<rparr> = Inr h' \<and>
          get_prop (hap_value h') ''gain'' = Num (6 / 5))"
  using bundle_gain_multiplies [of "\<lparr>extent = (), hap_value = Obj [(''s'', Str ''bd''), (''gain'', Num 2)]\<rparr>"
          "\<lambda>s. None" "[''kit'' \<mapsto> Obj [(''gain'', Num (3 / 2))]]" "''kit''" Undefined "\<lambda>v. None"]
        bundle_gain_multiplies [of "\<lparr>extent = (), hap_value = Obj [(''s'', Str ''bd''), (''gain'', Num 1)]\<rparr>"
          "\<lambda>s. None" Map.empty "''kit''" "Obj [(''gain'', Num (6 / 5))]" "\<lambda>v. None"]
  by (simp add: resolved_bundle_def decode_def read_flag_def coalesce_def default_to_def
      get_prop_def js_mul_def inherited_def object_prototype_def)


text \<open>
  C10. For every event, \<open>bassSound\<close> and \<open>leadSound\<close> set the field \<open>s\<close> of the payload:
  to the \<open>sound\<close> of the bundle when it has one, and otherwise to the fixed default,
  \<open>gm_synth_bass_2\<close> for \<open>bassSound\<close> and \<open>sawtooth\<close> for \<open>leadSound\<close>, whatever the
  payload held before. The fields \<open>lpf\<close> and, for \<open>leadSound\<close>, \<open>lpq\<close> of the payload stay
  as they were whenever the bundle omits them.
\<close>

theorem sound_always_overwritten:
  fixes h :: "'t hap"
  assumes "\<not> nullish (hap_value h)"
  shows "(\<not> nullish (resolved_bundle json_parse store flagKey defaultArg bassSound_default) \<longrightarrow>
            (\<exists>h'. bassSound_hap json_parse conv store flagKey defaultArg h = Inr h' \<and>
                  get_prop (hap_value h') ''s'' =
                    default_to (get_prop (resolved_bundle json_parse store flagKey defaultArg
                        bassSound_default) ''sound'') (Str ''gm_synth_bass_2'') \<and>
                  (get_prop (resolved_bundle json_parse store flagKey defaultArg bassSound_default)
                      ''lpf'' = Undefined \<longrightarrow>
                   get_prop (hap_value h') ''lpf'' = get_prop (hap_value h) ''lpf''))) \<and>
         (\<not> nullish (resolved_bundle json_parse store flagKey defaultArg leadSound_default) \<longrightarrow>
            (\<exists>h'. leadSound_hap json_parse conv store flagKey defaultArg h = Inr h' \<and>
                  get_prop (hap_value h') ''s'' =
                    default_to (get_prop (resolved_bundle json_parse store flagKey defaultArg
                        leadSound_default) ''sound'') (Str ''sawtooth'') \<and>
                  (get_prop (resolved_bundle json_parse store flagKey defaultArg leadSound_default)
                      ''lpf'' = Undefined \<longrightarrow>
                   get_prop (hap_value h') ''lpf'' = get_prop (hap_value h) ''lpf'') \<and>
                  (get_prop (resolved_bundle json_parse store flagKey defaultArg leadSound_default)
                      ''lpq'' = Undefined \<longrightarrow>
                   get_prop (hap_value h') ''lpq'' = get_prop (hap_value h) ''lpq'')))"
proof (intro conjI impI)
  assume b: "\<not> nullish (resolved_bundle json_parse store flagKey defaultArg bassSound_default)"
  from bassSound_on_fields [OF b assms, of conv] obtain fs where
    "bassSound_on conv (resolved_bundle json_parse store flagKey defaultArg bassSound_default) (hap_value h) = Inr (Obj fs)"
    "get_prop (Obj fs) ''s'' =
       default_to (get_prop (resolved_bundle json_parse store flagKey defaultArg bassSound_default) ''sound'')
         (Str ''gm_synth_bass_2'')"
    "get_prop (Obj fs) ''lpf'' =
       (if get_prop (resolved_bundle json_parse store flagKey defaultArg bassSound_default) ''lpf'' = Undefined
        then get_prop (hap_value h) ''lpf''
        else get_prop (resolved_bundle json_parse store flagKey defaultArg bassSound_default) ''lpf'')"
    by blast
  then show "\<exists>h'. bassSound_hap json_parse conv store flagKey defaultArg h = Inr h' \<and>
                  get_prop (hap_value h') ''s'' =
                    default_to (get_prop (resolved_bundle json_parse store flagKey defaultArg
                        bassSound_default) ''sound'') (Str ''gm_synth_bass_2'') \<and>
                  (get_prop (resolved_bundle json_parse store flagKey defaultArg bassSound_default)
                      ''lpf'' = Undefined \<longrightarrow>
                   get_prop (hap_value h') ''lpf'' = get_prop (hap_value h) ''lpf'')"
    by (simp add: bassSound_hap_def resolved_bundle_def hap_withValue_Inr)
next
  assume b: "\<not> nullish (resolved_bundle json_parse store flagKey defaultArg leadSound_default)"
  from leadSound_on_fields [OF b assms, of conv] obtain fs where
    "leadSound_on conv (resolved_bundle json_parse store flagKey defaultArg leadSound_default) (hap_value h) = Inr (Obj fs)"
    "get_prop (Obj fs) ''s'' =
       default_to (get_prop (resolved_bundle json_parse store flagKey defaultArg leadSound_default) ''sound'')
         (Str ''sawtooth'')"
    "get_prop (Obj fs) ''lpf'' =
       (if get_prop (resolved_bundle json_parse store flagKey defaultArg leadSound_default) ''lpf'' = Undefined
        then get_prop (hap_value h) ''lpf''
        else get_prop (resolved_bundle json_parse store flagKey defaultArg leadSound_default) ''lpf'')"
    "get_prop (Obj fs) ''lpq'' =
       (if get_prop (resolved_bundle json_parse store flagKey defaultArg leadSound_default) ''lpq'' = Undefined
        then get_prop (hap_value h) ''lpq''
        else get_prop (resolved_bundle json_parse store flagKey defaultArg leadSound_default) ''lpq'')"
    by blast
  then show "\<exists>h'. leadSound_hap json_parse conv store flagKey defaultArg h = Inr h' \<and>
                  get_prop (hap_value h') ''s'' =
                    default_to (get_prop (resolved_bundle json_parse store flagKey defaultArg
                        leadSound_default) ''sound'') (Str ''sawtooth'') \<and>
                  (get_prop (resolved_bundle json_parse store flagKey defaultArg leadSound_default)
                      ''lpf'' = Undefined \<longrightarrow>
                   get_prop (hap_value h') ''lpf'' = get_prop (hap_value h) ''lpf'') \<and>
                  (get_prop (resolved_bundle json_parse store flagKey defaultArg leadSound_default)
                      ''lpq'' = Undefined \<longrightarrow>
                   get_prop (hap_value h') ''lpq'' = get_prop (hap_value h) ''lpq'')"
    by (simp add: leadSound_hap_def resolved_bundle_def hap_withValue_Inr)
qed

theorem sound_always_overwritten_witness:
  "\<not> nullish (hap_value \<lparr>extent = (), hap_value = Obj [(''note'', Str ''e2''), (''s'', Str ''piano''), (''lpf'', Num 900), (''lpq'', Num 3)]\<rparr>) \<and>
   \<not> nullish (resolved_bundle (\<lambda>s. None) [''b'' \<mapsto> Obj [(''gain'', Num 2)]] ''b'' Undefined bassSound_default) \<and>
   get_prop (resolved_bundle (\<lambda>s. None) [''b'' \<mapsto> Obj [(''gain'', Num 2)]] ''b'' Undefined bassSound_default) ''lpf'' = Undefined \<and>
   \<not> nullish (resolved_bundle (\<lambda>s. None) [''b'' \<mapsto> Obj [(''gain'', Num 2)]] ''b'' Undefined leadSound_default) \<and>
   get_prop (resolved_bundle (\<lambda>s. None) [''b'' \<mapsto> Obj [(''gain'', Num 2)]] ''b'' Undefined leadSound_default) ''lpf'' = Undefined \<and>
   get_prop (resolved_bundle (\<lambda>s. None) [''b'' \<mapsto> Obj [(''gain'', Num 2)]] ''b'' Undefined leadSound_default) ''lpq'' = Undefined \<and>
   (\<exists>h'. bassSound_hap (\<lambda>s. None) (\<lambda>v. None) [''b'' \<mapsto> Obj [(''gain'', Num 2)]] ''b'' Undefined
            \<lparr>extent = (), hap_value = Obj [(''note'', Str ''e2''), (''s'', Str ''piano''), (''lpf'', Num 900), (''lpq'', Num 3)]\<rparr> = Inr h' \<and>
          get_prop (hap_value h') ''s'' = Str ''gm_synth_bass_2'' \<and>
          get_prop (hap_value h') ''lpf'' = Num 900) \<and>
   (\<exists>h'. leadSound_hap (\<lambda>s. None) (\<lambda>v. None) [''b'' \<mapsto> Obj [(''gain'', Num 2)]] ''b'' Undefined
            \<lparr>extent = (), hap_value = Obj [(''note'', Str ''e2''), (''s'', Str ''piano''), (''lpf'', Num 900), (''lpq'', Num 3)]\<rparr> = Inr h' \<and>
          get_prop (hap_value h') ''s'' = Str ''sawtooth'' \<and>
          get_prop (hap_value h') ''lpf'' = Num 900 \<and>
          get_prop (hap_value h') ''lpq'' = Num 3)"
  using sound_always_overwritten [of "\<lparr>extent = (), hap_value = Obj [(''note'', Str ''e2''), (''s'', Str ''piano''), (''lpf'', Num 900), (''lpq'', Num 3)]\<rparr>"
          "\<lambda>s. None" "[''b'' \<mapsto> Obj [(''gain'', Num 2)]]" "''b''" Undefined "\<lambda>v. None"]
  by (simp add: resolved_bundle_def decode_def read_flag_def coalesce_def default_to_def
      get_prop_def inherited_def object_prototype_def)

subsection \<open>The scalar bridge\<close>

text \<open>
  C7. In the scalar bridge, when the resolved value holds pattern-language syntax, differs
  from the cached string and fails to parse, the query logs the error and returns the
  events of the constant pattern of the raw string, and the cache, both the last-seen
  string and the last-parsed pattern, is as before the query. In every query the cached
  string changes only to a string that has just been parsed, so a string whose parse
  failed is never installed.
\<close>

theorem flag_parse_failure_keeps_cache:
  fixes cache :: "('q, 't) flag_cache"
  assumes "v = coalesce (read_flag store key) defaultValue"
  shows "(hasMiniNotation v \<and> v \<noteq> cachedValue cache \<and> mini v = None \<longrightarrow>
            flag mini pure store key defaultValue cache st =
              (Inr (pure v st), cache,
               [ConsoleError (''[LaunchDarkly] Failed to parse mini-notation for flag '' @ key)])) \<and>
         (cachedValue (fst (snd (flag mini pure store key defaultValue cache st))) \<noteq> cachedValue cache \<longrightarrow>
            mini (cachedValue (fst (snd (flag mini pure store key defaultValue cache st)))) \<noteq> None)"
  using assms by (auto simp: flag_def flag_on_def Let_def split: option.splits)

theorem flag_parse_failure_keeps_cache_witness:
  "Str ''<c e'' = coalesce (read_flag [''notes'' \<mapsto> Str ''<c e''] ''notes'') (Str ''c'') \<and>
   hasMiniNotation (Str ''<c e'') \<and>
   Str ''<c e'' \<noteq> cachedValue (flag_cache_init :: (nat, nat) flag_cache) \<and>
   (\<lambda>v. None :: (nat, nat) pattern option) (Str ''<c e'') = None \<and>
   flag (\<lambda>v. None) (\<lambda>v q. [\<lparr>extent = q, hap_value = v\<rparr>]) [''notes'' \<mapsto> Str ''<c e''] ''notes'' (Str ''c'')
       flag_cache_init (0 :: nat)
     = (Inr [\<lparr>extent = 0, hap_value = Str ''<c e''\<rparr>], flag_cache_init,
        [ConsoleError ''[LaunchDarkly] Failed to parse mini-notation for flag notes'']) \<and>
   cachedValue (fst (snd (flag (\<lambda>v. if v = Str ''c*2'' then Some (\<lambda>q. []) else None)
       (\<lambda>v q. [\<lparr>extent = q, hap_value = v\<rparr>]) [''notes'' \<mapsto> Str ''c*2''] ''notes'' (Str ''c'')
       flag_cache_init (0 :: nat)))) \<noteq> cachedValue (flag_cache_init :: (nat, nat) flag_cache) \<and>
   (\<lambda>v. if v = Str ''c*2'' then Some (\<lambda>q. []) else None :: (nat, nat) pattern option)
      (cachedValue (fst (snd (flag (\<lambda>v. if v = Str ''c*2'' then Some (\<lambda>q. []) else None)
       (\<lambda>v q. [\<lparr>extent = q, hap_value = v\<rparr>]) [''notes'' \<mapsto> Str ''c*2''] ''notes'' (Str ''c'')
       flag_cache_init (0 :: nat))))) \<noteq> None"
  using flag_parse_failure_keeps_cache [of "Str ''<c e''" "[''notes'' \<mapsto> Str ''<c e'']" "''notes''" "Str ''c''"
          "flag_cache_init :: (nat, nat) flag_cache" "\<lambda>v. None" "\<lambda>v q. [\<lparr>extent = q, hap_value = v\<rparr>]" "0 :: nat"]
        flag_parse_failure_keeps_cache [of "Str ''c*2''" "[''notes'' \<mapsto> Str ''c*2'']" "''notes''" "Str ''c''"
          "flag_cache_init :: (nat, nat) flag_cache" "\<lambda>v. if v = Str ''c*2'' then Some (\<lambda>q. []) else None"
          "\<lambda>v q. [\<lparr>extent = q, hap_value = v\<rparr>]" "0 :: nat"]
  by (simp add: read_flag_def coalesce_def hasMiniNotation_def flag_cache_init_def flag_def
      flag_on_def query_cached_def)

subsection \<open>The cached variant selector\<close>

lemma strict_eq_Str [simp]: "strict_eq same (Str a) c = (c = Str a)"
  by (auto simp: strict_eq_def)

text \<open>
  A resolved name that the registry does not own but every object inherits, such as
  \<open>toString\<close>, does not fall back to the default variation: the read yields the inherited
  value, a function is called, and what the variable then holds is no pattern, so the
  query throws.
\<close>

lemma getLeadArrangement_inherited_name:
  fixes c :: "('q, 't) lead_cache"
  assumes own: "variations n = None"
    and inh: "map_of object_prototype n = Some v"
    and read: "coalesce (read_flag store flagKey) dflt = Str n"
    and fresh: "cachedVariationKey c \<noteq> Str n"
  shows "fst (getLeadArrangement toKey same call store flagKey dflt variations c st) = Inl TypeError"
proof -
  have found: "find_factory toKey variations (Str n) dflt = Some (n, Inherited v)"
    using own inh by (simp add: find_factory_def read_variation_def property_key_def)
  have step: "getLeadArrangement toKey same call store flagKey dflt variations c st =
      (case materialize call (Inherited v :: ('q, 't) entry) of
         None \<Rightarrow> (Inl TypeError, c\<lparr>cachedVariationKey := Str n\<rparr>, invocation n (Inherited v :: ('q, 't) entry))
       | Some made \<Rightarrow>
           (query_held made st, c\<lparr>cachedVariationKey := Str n, cachedArrangement := made\<rparr>,
            invocation n (Inherited v :: ('q, 't) entry)))"
    using found read fresh
    by (simp add: getLeadArrangement_def getLeadArrangement_on_def Let_def split: option.splits)
  have made: "materialize call (Inherited v :: ('q, 't) entry) = None \<or>
      (\<exists>x. materialize call (Inherited v :: ('q, 't) entry) = Some (NotPattern x))"
  proof (cases v)
    case (Fun f)
    then show ?thesis by (cases "call f") simp_all
  qed simp_all
  then show ?thesis
  proof
    assume "materialize call (Inherited v :: ('q, 't) entry) = None"
    then show ?thesis by (simp add: step)
  next
    assume "\<exists>x. materialize call (Inherited v :: ('q, 't) entry) = Some (NotPattern x)"
    then obtain x where "materialize call (Inherited v :: ('q, 't) entry) = Some (NotPattern x)"
      by blast
    then show ?thesis by (simp add: step)
  qed
qed

lemma getLeadArrangement_toString_throws:
  "fst (getLeadArrangement (\<lambda>v. ''other'') (\<lambda>a b. False) (\<lambda>f. Some (Str ''[object Undefined]''))
          [''leadArrangement'' \<mapsto> Str ''toString''] ''leadArrangement'' (Str ''original'')
          [''techno'' \<mapsto> Factory (\<lambda>q. [\<lparr>extent = q, hap_value = Str ''supersaw''\<rparr>]),
           ''original'' \<mapsto> Factory (\<lambda>q. [\<lparr>extent = q, hap_value = Str ''sawtooth''\<rparr>])]
          lead_cache_init (0 :: nat)) = Inl TypeError"
  by (rule getLeadArrangement_inherited_name [where n = "''toString''" and v = "Fun ''toString''"])
    (simp_all add: object_prototype_def read_flag_def coalesce_def lead_cache_init_def)

text \<open>
  C2. The selector is a machine of two states. The resolved name is the flag value or,
  without one, the default name; its factory is the entry that the read of the registry
  finds for it, under its own name or else under the default's, and the names here are
  those for which that entry is a factory. From a cache that does not hold the name \<open>a\<close>,
  in particular the initial one, a query for \<open>a\<close> invokes the factory once and caches its
  pattern; a further query for \<open>a\<close> invokes nothing and answers from the cached pattern,
  leaving the cache as it is; a query for another name \<open>b\<close> invokes the factory of \<open>b\<close>
  once and replaces the cache; and a query for \<open>a\<close> after that invokes the factory of \<open>a\<close>
  again, since only the latest selection is kept.
\<close>

theorem getLeadArrangement_two_states:
  fixes c0 :: "('q, 't) lead_cache"
  assumes fa: "find_factory toKey variations (Str a) dflt = Some (na, Factory fa)"
    and fb: "find_factory toKey variations (Str b) dflt = Some (nb, Factory fb)"
    and ab: "a \<noteq> b"
    and sa: "coalesce (read_flag sa flagKey) dflt = Str a"
    and sb: "coalesce (read_flag sb flagKey) dflt = Str b"
    and c0: "cachedVariationKey c0 \<noteq> Str a"
  shows "getLeadArrangement toKey same call sa flagKey dflt variations c0 st1 =
           (Inr (fa st1), c0\<lparr>cachedVariationKey := Str a, cachedArrangement := Pattern fa\<rparr>,
            [InvokeFactory na]) \<and>
         getLeadArrangement toKey same call sa flagKey dflt variations
             (c0\<lparr>cachedVariationKey := Str a, cachedArrangement := Pattern fa\<rparr>) st2 =
           (Inr (fa st2), c0\<lparr>cachedVariationKey := Str a, cachedArrangement := Pattern fa\<rparr>, []) \<and>
         getLeadArrangement toKey same call sb flagKey dflt variations
             (c0\<lparr>cachedVariationKey := Str a, cachedArrangement := Pattern fa\<rparr>) st3 =
           (Inr (fb st3), c0\<lparr>cachedVariationKey := Str b, cachedArrangement := Pattern fb\<rparr>,
            [InvokeFactory nb]) \<and>
         getLeadArrangement toKey same call sa flagKey dflt variations
             (c0\<lparr>cachedVariationKey := Str b, cachedArrangement := Pattern fb\<rparr>) st4 =
           (Inr (fa st4), c0\<lparr>cachedVariationKey := Str a, cachedArrangement := Pattern fa\<rparr>,
            [InvokeFactory na])"
  using assms
  by (simp add: getLeadArrangement_def getLeadArrangement_on_def Let_def)

theorem getLeadArrangement_two_states_witness:
  "find_factory (\<lambda>v. ''other'')
       [''techno'' \<mapsto> Factory (\<lambda>q. [\<lparr>extent = q, hap_value = Str ''supersaw''\<rparr>]),
        ''epiano'' \<mapsto> Factory (\<lambda>q. [\<lparr>extent = q, hap_value = Str ''gm_epiano1''\<rparr>])]
       (Str ''techno'') (Str ''original'')
     = Some (''techno'', Factory (\<lambda>q :: nat. [\<lparr>extent = q, hap_value = Str ''supersaw''\<rparr>])) \<and>
   find_factory (\<lambda>v. ''other'')
       [''techno'' \<mapsto> Factory (\<lambda>q. [\<lparr>extent = q, hap_value = Str ''supersaw''\<rparr>]),
        ''epiano'' \<mapsto> Factory (\<lambda>q. [\<lparr>extent = q, hap_value = Str ''gm_epiano1''\<rparr>])]
       (Str ''epiano'') (Str ''original'')
     = Some (''epiano'', Factory (\<lambda>q :: nat. [\<lparr>extent = q, hap_value = Str ''gm_epiano1''\<rparr>])) \<and>
   ''techno'' \<noteq> ''epiano'' \<and>
   coalesce (read_flag [''leadArrangement'' \<mapsto> Str ''techno''] ''leadArrangement'') (Str ''original'')
     = Str ''techno'' \<and>
   coalesce (read_flag [''leadArrangement'' \<mapsto> Str ''epiano''] ''leadArrangement'') (Str ''original'')
     = Str ''epiano'' \<and>
   cachedVariationKey (lead_cache_init :: (nat, nat) lead_cache) \<noteq> Str ''techno'' \<and>
   getLeadArrangement (\<lambda>v. ''other'') (\<lambda>a b. False) (\<lambda>f. None) [''leadArrangement'' \<mapsto> Str ''techno'']
       ''leadArrangement'' (Str ''original'')
       [''techno'' \<mapsto> Factory (\<lambda>q. [\<lparr>extent = q, hap_value = Str ''supersaw''\<rparr>]),
        ''epiano'' \<mapsto> Factory (\<lambda>q. [\<lparr>extent = q, hap_value = Str ''gm_epiano1''\<rparr>])]
       lead_cache_init (0 :: nat)
     = (Inr [\<lparr>extent = 0, hap_value = Str ''supersaw''\<rparr>],
        \<lparr>cachedVariationKey = Str ''techno'',
         cachedArrangement = Pattern (\<lambda>q. [\<lparr>extent = q, hap_value = Str ''supersaw''\<rparr>])\<rparr>,
        [InvokeFactory ''techno'']) \<and>
   getLeadArrangement (\<lambda>v. ''other'') (\<lambda>a b. False) (\<lambda>f. None) [''leadArrangement'' \<mapsto> Str ''techno'']
       ''leadArrangement'' (Str ''original'')
       [''techno'' \<mapsto> Factory (\<lambda>q. [\<lparr>extent = q, hap_value = Str ''supersaw''\<rparr>]),
        ''epiano'' \<mapsto> Factory (\<lambda>q. [\<lparr>extent = q, hap_value = Str ''gm_epiano1''\<rparr>])]
       \<lparr>cachedVariationKey = Str ''techno'',
        cachedArrangement = Pattern (\<lambda>q. [\<lparr>extent = q, hap_value = Str ''supersaw''\<rparr>])\<rparr> (1 :: nat)
     = (Inr [\<lparr>extent = 1, hap_value = Str ''supersaw''\<rparr>],
        \<lparr>cachedVariationKey = Str ''techno'',
         cachedArrangement = Pattern (\<lambda>q. [\<lparr>extent = q, hap_value = Str ''supersaw''\<rparr>])\<rparr>,
        []) \<and>
   getLeadArrangement (\<lambda>v. ''other'') (\<lambda>a b. False) (\<lambda>f. None) [''leadArrangement'' \<mapsto> Str ''epiano'']
       ''leadArrangement'' (Str ''original'')
       [''techno'' \<mapsto> Factory (\<lambda>q. [\<lparr>extent = q, hap_value = Str ''supersaw''\<rparr>]),
        ''epiano'' \<mapsto> Factory (\<lambda>q. [\<lparr>extent = q, hap_value = Str ''gm_epiano1''\<rparr>])]
       \<lparr>cachedVariationKey = Str ''techno'',
        cachedArrangement = Pattern (\<lambda>q. [\<lparr>extent = q, hap_value = Str ''supersaw''\<rparr>])\<rparr> (2 :: nat)
     = (Inr [\<lparr>extent = 2, hap_value = Str ''gm_epiano1''\<rparr>],
        \<lparr>cachedVariationKey = Str ''epiano'',
         cachedArrangement = Pattern (\<lambda>q. [\<lparr>extent = q, hap_value = Str ''gm_epiano1''\<rparr>])\<rparr>,
        [InvokeFactory ''epiano'']) \<and>
   getLeadArrangement (\<lambda>v. ''other'') (\<lambda>a b. False) (\<lambda>f. None) [''leadArrangement'' \<mapsto> Str ''techno'']
       ''leadArrangement'' (Str ''original'')
       [''techno'' \<mapsto> Factory (\<lambda>q. [\<lparr>extent = q, hap_value = Str ''supersaw''\<rparr>]),
        ''epiano'' \<mapsto> Factory (\<lambda>q. [\<lparr>extent = q, hap_value = Str ''gm_epiano1''\<rparr>])]
       \<lparr>cachedVariationKey = Str ''epiano'',
        cachedArrangement = Pattern (\<lambda>q. [\<lparr>extent = q, hap_value = Str ''gm_epiano1''\<rparr>])\<rparr> (3 :: nat)
     = (Inr [\<lparr>extent = 3, hap_value = Str ''supersaw''\<rparr>],
        \<lparr>cachedVariationKey = Str ''techno'',
         cachedArrangement = Pattern (\<lambda>q. [\<lparr>extent = q, hap_value = Str ''supersaw''\<rparr>])\<rparr>,
        [InvokeFactory ''techno''])"
  using getLeadArrangement_two_states [of "\<lambda>v. ''other''"
          "[''techno'' \<mapsto> Factory (\<lambda>q. [\<lparr>extent = q, hap_value = Str ''supersaw''\<rparr>]),
            ''epiano'' \<mapsto> Factory (\<lambda>q. [\<lparr>extent = q, hap_value = Str ''gm_epiano1''\<rparr>])]"
          "''techno''" "Str ''original''" "''techno''" "\<lambda>q. [\<lparr>extent = q, hap_value = Str ''supersaw''\<rparr>]"
          "''epiano''" "''epiano''" "\<lambda>q. [\<lparr>extent = q, hap_value = Str ''gm_epiano1''\<rparr>]"
          "[''leadArrangement'' \<mapsto> Str ''techno'']" "''leadArrangement''"
          "[''leadArrangement'' \<mapsto> Str ''epiano'']" "lead_cache_init :: (nat, nat) lead_cache"
          "\<lambda>a b. False" "\<lambda>f. None" "0 :: nat" "1 :: nat" "2 :: nat" "3 :: nat"]
  by (simp add: find_factory_def read_variation_def property_key_def read_flag_def coalesce_def
      lead_cache_init_def)

subsection \<open>Keys without a flag\<close>

lemma read_flag_absent:
  "store key = None \<Longrightarrow> map_of object_prototype key = None \<Longrightarrow> read_flag store key = Undefined"
  by (simp add: read_flag_def inherited_def)

lemma coalesce_Undefined [simp]: "coalesce Undefined d = d"
  by (simp add: coalesce_def)

text \<open>
  C3. For a flag key absent from the flag store every bridge is meant to work with the
  supplied default, and \<open>flags[key] ?? defaultValue\<close> does so only where the read yields
  \<open>undefined\<close>. The store is a plain object: the read of the absent key \<open>constructor\<close>
  yields the function every object inherits under that name. It is truthy, so
  \<open>toggle('constructor', false)\<close> on the empty store lets the events of the base pattern
  through, where the default \<open>false\<close> in place of the read gives none.
\<close>

theorem toggle_inherited_key_ignores_default:
  "flags (world_init True True) ''constructor'' = None \<and>
   toggle (flags (world_init True True)) ''constructor'' (Bool False)
       (\<lambda>q. [\<lparr>extent = q, hap_value = Str ''bd''\<rparr>]) (0 :: nat)
     = [\<lparr>extent = 0, hap_value = Str ''bd''\<rparr>] \<and>
   toggle_on (Bool False) (\<lambda>q. [\<lparr>extent = q, hap_value = Str ''bd''\<rparr>]) (0 :: nat) = []"
  by (simp add: world_init_def toggle_def toggle_on_def read_flag_def inherited_def
      object_prototype_def coalesce_def default_to_def)

text \<open>
  The defect is confined to the inherited names. On every other absent key the read yields
  \<open>undefined\<close>, and each bridge returns what it returns with the default (the declared one
  where the caller supplies none) in place of the read.
\<close>

lemma absent_key_reads_default:
  fixes self :: "('q, 't) pattern" and cache :: "('q, 't) flag_cache" and lcache :: "('q, 't) lead_cache"
  assumes absent: "flags w key = None"
    and own_name: "map_of object_prototype key = None"
  shows "flag mini pure (flags w) key d cache st = flag_on mini pure key d cache st \<and>
         polySpeed fast (flags w) key d self st = polySpeed_on fast (default_to d (Num 1)) self st \<and>
         drumKit json_parse conv (flags w) key d self st =
           withHap (hap_withValue (drumKit_on conv (decode json_parse (default_to d drumKit_default)))) self st \<and>
         bassSound json_parse conv (flags w) key d self st =
           withHap (hap_withValue (bassSound_on conv (decode json_parse (default_to d bassSound_default)))) self st \<and>
         leadSound json_parse conv (flags w) key d self st =
           withHap (hap_withValue (leadSound_on conv (decode json_parse (default_to d leadSound_default)))) self st \<and>
         toggle (flags w) key d self st = toggle_on (default_to d (Bool True)) self st \<and>
         getLeadArrangement toKey same call (flags w) key d variations lcache st =
           getLeadArrangement_on toKey same call d variations d lcache st \<and>
         setcpmFlag pure parseFloat quot key d dv w =
           (setcpmFlag_pattern pure,
            register_listener key (default_to d (Num 100)) (default_to dv (Num 1))
              (applyTempo_cpm
                 (getValue_on parseFloat quot (default_to d (Num 100)) (default_to dv (Num 1))) w))"
proof -
  have r: "read_flag (flags w) key = Undefined"
    using absent own_name by (rule read_flag_absent)
  have kit: "drumKit_hap json_parse conv (flags w) key d =
      (hap_withValue (drumKit_on conv (decode json_parse (default_to d drumKit_default)))
        :: 't hap \<Rightarrow> error + 't hap)"
    by (rule ext) (simp add: r drumKit_hap_def)
  have bass: "bassSound_hap json_parse conv (flags w) key d =
      (hap_withValue (bassSound_on conv (decode json_parse (default_to d bassSound_default)))
        :: 't hap \<Rightarrow> error + 't hap)"
    by (rule ext) (simp add: r bassSound_hap_def)
  have lead: "leadSound_hap json_parse conv (flags w) key d =
      (hap_withValue (leadSound_on conv (decode json_parse (default_to d leadSound_default)))
        :: 't hap \<Rightarrow> error + 't hap)"
    by (rule ext) (simp add: r leadSound_hap_def)
  show ?thesis
    by (simp add: r kit bass lead flag_def polySpeed_def drumKit_def bassSound_def
        leadSound_def toggle_def getLeadArrangement_def
        setcpmFlag_def setcpmFlag_effect_def applyTempo_def getValue_def Let_def)
qed

subsection \<open>The provider's failure\<close>

lemma applyTempo_cpm_eq: "applyTempo_cpm cpm w = w\<lparr>effects := effects w @ [tempo_effect w cpm]\<rparr>"
  by (simp add: applyTempo_cpm_def tempo_effect_def)

lemma applyTempo_eq:
  "applyTempo parseFloat quot k d dv w =
     w\<lparr>effects := effects w @ [tempo_effect w (getValue parseFloat quot (flags w) k d dv)]\<rparr>"
  by (simp add: applyTempo_def applyTempo_cpm_eq)

lemma tempo_effect_cong:
  "setcpm_defined w' = setcpm_defined w \<Longrightarrow> setCpm_defined w' = setCpm_defined w \<Longrightarrow>
   tempo_effect w' = tempo_effect w"
  by (rule ext) (simp add: tempo_effect_def)

lemma run_listener_frame:
  "ldClient (run_listener parseFloat quot l n w) = ldClient w \<and>
   tempoListeners (run_listener parseFloat quot l n w) = tempoListeners w \<and>
   setcpm_defined (run_listener parseFloat quot l n w) = setcpm_defined w \<and>
   setCpm_defined (run_listener parseFloat quot l n w) = setCpm_defined w"
  by (cases l; cases n) (simp_all add: applyTempo_eq)

lemma run_listeners_frame:
  "ldClient (run_listeners parseFloat quot ls n w) = ldClient w \<and>
   tempoListeners (run_listeners parseFloat quot ls n w) = tempoListeners w \<and>
   setcpm_defined (run_listeners parseFloat quot ls n w) = setcpm_defined w \<and>
   setCpm_defined (run_listeners parseFloat quot ls n w) = setCpm_defined w"
  unfolding run_listeners_def
proof (induction ls arbitrary: w)
  case Nil
  then show ?case by simp
next
  case (Cons el ls)
  obtain ev l where el: "el = (ev, l)" by (cases el)
  show ?case
    using Cons.IH [of "run_listener parseFloat quot l n w"] Cons.IH [of w] el
    by (simp add: run_listener_frame)
qed

lemma notify_frame:
  "ldClient (notify parseFloat quot n w) = ldClient w \<and>
   tempoListeners (notify parseFloat quot n w) = tempoListeners w \<and>
   setcpm_defined (notify parseFloat quot n w) = setcpm_defined w \<and>
   setCpm_defined (notify parseFloat quot n w) = setCpm_defined w"
  by (simp add: notify_def run_listeners_frame split: option.splits)

lemma run_listener_Failed_flags:
  "flags (run_listener parseFloat quot l (FailedN err) w) = flags w"
  by (cases l) simp_all

lemma run_listeners_Failed_flags:
  "flags (run_listeners parseFloat quot ls (FailedN err) w) = flags w"
  unfolding run_listeners_def
proof (induction ls arbitrary: w)
  case Nil
  then show ?case by simp
next
  case (Cons el ls)
  obtain ev l where el: "el = (ev, l)" by (cases el)
  show ?case
    using Cons.IH [of "run_listener parseFloat quot l (FailedN err) w"] Cons.IH [of w] el
    by (simp add: run_listener_Failed_flags)
qed

text \<open>
  C9. A failure notification of the provider changes no key of the flag store, whatever
  listeners the client carries: none is added, removed or modified. When it follows
  \<open>initLaunchDarkly\<close> on a module without a client, the promise that call returned is
  rejected with the provider's error, the store is the one from before the call, and the
  only effect is the message on the console; the notification has no other outcome, so
  nothing escapes but the rejection.
\<close>

theorem init_failure_rejects:
  "flags (notify parseFloat quot (FailedN err) w) = flags w \<and>
   (ldClient w = None \<longrightarrow>
      promise_state (fst (initLaunchDarkly w))
          (notify parseFloat quot (FailedN err) (snd (initLaunchDarkly w))) = Rejected err \<and>
      flags (notify parseFloat quot (FailedN err) (snd (initLaunchDarkly w))) = flags w \<and>
      effects (notify parseFloat quot (FailedN err) (snd (initLaunchDarkly w))) =
        effects w @ [ConsoleError ''[LaunchDarkly] Failed to initialize:''])"
proof (intro conjI impI)
  show "flags (notify parseFloat quot (FailedN err) w) = flags w"
    by (simp add: notify_def run_listeners_Failed_flags split: option.splits)
next
  assume "ldClient w = None"
  then show "promise_state (fst (initLaunchDarkly w))
          (notify parseFloat quot (FailedN err) (snd (initLaunchDarkly w))) = Rejected err"
    by (simp add: initLaunchDarkly_def notify_def run_listeners_def settle_def)
next
  assume "ldClient w = None"
  then show "flags (notify parseFloat quot (FailedN err) (snd (initLaunchDarkly w))) = flags w"
    by (simp add: initLaunchDarkly_def notify_def run_listeners_def)
next
  assume "ldClient w = None"
  then show "effects (notify parseFloat quot (FailedN err) (snd (initLaunchDarkly w))) =
        effects w @ [ConsoleError ''[LaunchDarkly] Failed to initialize:'']"
    by (simp add: initLaunchDarkly_def notify_def run_listeners_def)
qed

theorem init_failure_rejects_witness:
  "ldClient (world_init True False) = None \<and>
   promise_state (fst (initLaunchDarkly (world_init True False)))
       (notify (\<lambda>s. NaN) (\<lambda>a b. a) (FailedN (Str ''network error'')) (snd (initLaunchDarkly (world_init True False))))
     = Rejected (Str ''network error'') \<and>
   flags (notify (\<lambda>s. NaN) (\<lambda>a b. a) (FailedN (Str ''network error'')) (snd (initLaunchDarkly (world_init True False))))
     = Map.empty \<and>
   effects (notify (\<lambda>s. NaN) (\<lambda>a b. a) (FailedN (Str ''network error'')) (snd (initLaunchDarkly (world_init True False))))
     = [ConsoleError ''[LaunchDarkly] Failed to initialize:'']"
  using init_failure_rejects [of "\<lambda>s. NaN" "\<lambda>a b. a" "Str ''network error''" "world_init True False"]
  by (simp add: world_init_def)

subsection \<open>The tempo synchronizer\<close>

lemma cycle_pieces_0_1: "cycle_pieces 0 1 = [\<lparr>span_begin = 0, span_end = 1\<rparr>]"
  by (simp add: cycle_pieces.simps [of 0 1] cycle_pieces.simps [of 1 1] sam_def nextSam_def)

text \<open>
  C1. The pattern \<open>setcpmFlag\<close> returns is \<open>pure(0).withValue(() => ({}))\<close>, which is not
  silence: it has as many events as the constant pattern has in the window, each with the
  empty object as payload. On the window of the first cycle that is one event.
\<close>

theorem setcpmFlag_pattern_not_silent:
  "fst (setcpmFlag pure_cycles parseFloat quot ''t'' (Num 110) (Num 4) w)
       \<lparr>span_begin = 0, span_end = 1\<rparr>
     = [\<lparr>extent = (\<lparr>span_begin = 0, span_end = 1\<rparr>, \<lparr>span_begin = 0, span_end = 1\<rparr>),
         hap_value = Obj []\<rparr>]"
  by (simp add: setcpmFlag_def setcpmFlag_pattern_def withValue_def pure_cycles_def spanCycles_def
      cycle_pieces_0_1 wholeCycle_def sam_def nextSam_def)

lemma setcpmFlag_pattern_length:
  "length (fst (setcpmFlag pure parseFloat quot flagKey d dv w) st) = length (pure (Num 0) st)"
  by (simp add: setcpmFlag_def setcpmFlag_pattern_def withValue_def)

lemma registered_shape:
  assumes "client_shape w ts"
  shows "registered k w = map hook (filter (\<lambda>t. fst t = k) ts)"
proof -
  have "filter (tempo_listener_for k) (map hook ss) = map hook (filter (\<lambda>t. fst t = k) ss)" for ss
    by (induction ss) auto
  then show ?thesis
    using assms by (simp add: client_shape_def registered_def init_listeners_def)
qed

lemma distinct_filter_fst_le1:
  "distinct (map fst ts) \<Longrightarrow> length (filter (\<lambda>t. fst t = k) ts) \<le> 1"
proof (induction ts)
  case Nil
  then show ?case by simp
next
  case (Cons t ts)
  show ?case
  proof (cases "fst t = k")
    case True
    with Cons.prems have "k \<notin> fst ` set ts" by auto
    then have "filter (\<lambda>t. fst t = k) ts = []"
      by (auto simp: filter_empty_conv)
    with True show ?thesis by simp
  next
    case False
    with Cons show ?thesis by simp
  qed
qed

lemma shape_init: "reachable_shape (world_init a b)"
  by (simp add: reachable_shape_def world_init_def)

lemma shape_initLaunchDarkly:
  assumes "reachable_shape w"
  shows "reachable_shape (snd (initLaunchDarkly w))"
proof (cases "ldClient w")
  case None
  then have "client_shape (snd (initLaunchDarkly w)) []"
    by (simp add: initLaunchDarkly_def client_shape_def init_listeners_def)
  then show ?thesis
    unfolding reachable_shape_def by blast
next
  case (Some c)
  then show ?thesis
    using assms by (simp add: initLaunchDarkly_def)
qed

lemma client_shape_effects [simp]:
  "client_shape (w\<lparr>effects := es\<rparr>) ts = client_shape w ts"
  by (simp add: client_shape_def)

lemma shape_register:
  assumes "client_shape w ts"
  shows "\<exists>ts'. client_shape (register_listener k d dv w) ts'"
proof (cases "tempoListeners w k")
  case (Some l)
  then show ?thesis
    using assms by (auto simp: register_listener_def)
next
  case None
  have fresh: "k \<notin> fst ` set ts"
  proof
    assume "k \<in> fst ` set ts"
    then obtain t where "t \<in> set ts" "fst t = k" by auto
    with assms have "tempoListeners w k \<noteq> None"
      by (auto simp: client_shape_def list_all_iff)
    with None show False by simp
  qed
  have "client_shape (register_listener k d dv w) (ts @ [(k, d, dv)])"
    using assms None fresh
    by (auto simp: register_listener_def client_shape_def list_all_iff)
  then show ?thesis by blast
qed

lemma shape_setcpmFlag:
  assumes "reachable_shape w"
  shows "reachable_shape (setcpmFlag_effect parseFloat quot k d dv w)"
proof (cases "ldClient w")
  case None
  then have "ldClient (setcpmFlag_effect parseFloat quot k d dv w) = None"
    by (simp add: setcpmFlag_effect_def register_listener_def applyTempo_eq Let_def)
  then show ?thesis by (simp add: reachable_shape_def)
next
  case (Some c)
  with assms obtain ts where "client_shape w ts"
    by (auto simp: reachable_shape_def)
  then have "client_shape (applyTempo parseFloat quot k (default_to d (Num 100)) (default_to dv (Num 1)) w) ts"
    by (simp add: applyTempo_eq)
  from shape_register [OF this] show ?thesis
    by (auto simp: reachable_shape_def setcpmFlag_effect_def Let_def)
qed

lemma shape_notify:
  assumes "reachable_shape w"
  shows "reachable_shape (notify parseFloat quot n w)"
  using assms notify_frame [of parseFloat quot n w]
  by (auto simp: reachable_shape_def client_shape_def)

lemma shape_step: "reachable_shape w \<Longrightarrow> reachable_shape (step parseFloat quot a w)"
  by (cases a) (simp_all add: shape_initLaunchDarkly shape_setcpmFlag shape_notify)

lemma shape_run: "reachable_shape w \<Longrightarrow> reachable_shape (run parseFloat quot acts w)"
  unfolding run_def by (induction acts arbitrary: w) (simp_all add: shape_step)

lemma registered_le1:
  assumes "reachable_shape w"
  shows "length (registered k w) \<le> 1"
proof (cases "ldClient w")
  case None
  then show ?thesis by (simp add: registered_def)
next
  case (Some c)
  with assms obtain ts where ts: "client_shape w ts"
    by (auto simp: reachable_shape_def)
  then have "distinct (map fst ts)" by (simp add: client_shape_def)
  from distinct_filter_fst_le1 [OF this, of k] show ?thesis
    by (simp add: registered_shape [OF ts])
qed

lemma registered_nonempty_entry:
  assumes "reachable_shape w" "registered k w \<noteq> []"
  shows "tempoListeners w k \<noteq> None"
proof -
  from assms(2) have "ldClient w \<noteq> None"
    by (auto simp: registered_def split: option.splits)
  with assms(1) obtain ts where ts: "client_shape w ts"
    by (auto simp: reachable_shape_def)
  from assms(2) obtain t where "t \<in> set ts" "fst t = k"
    by (auto simp: registered_shape [OF ts] filter_empty_conv)
  with ts show ?thesis
    by (auto simp: client_shape_def list_all_iff)
qed

lemma registered_first_call:
  assumes "reachable_shape w" "ldClient w \<noteq> None" "tempoListeners w k = None"
  shows "registered k (setcpmFlag_effect parseFloat quot k d dv w) =
           [(Change, TempoChange k (default_to d (Num 100)) (default_to dv (Num 1)))]"
proof -
  from registered_nonempty_entry [OF assms(1), of k] assms(3) have "registered k w = []"
    by auto
  then show ?thesis
    using assms(2,3)
    by (auto simp: setcpmFlag_effect_def register_listener_def applyTempo_eq registered_def Let_def)
qed

lemma registered_step_keeps:
  assumes "reachable_shape w" "registered k w = [l]"
  shows "registered k (step parseFloat quot a w) = [l]"
proof (cases a)
  case Init
  from assms(2) have "ldClient w \<noteq> None"
    by (auto simp: registered_def split: option.splits)
  with Init assms(2) show ?thesis
    by (auto simp: initLaunchDarkly_def)
next
  case (Sync k' d dv)
  from registered_nonempty_entry [OF assms(1), of k] assms(2)
  have entry: "tempoListeners w k \<noteq> None" by simp
  show ?thesis
  proof (cases "k' = k")
    case True
    with entry Sync assms(2) show ?thesis
      by (auto simp: setcpmFlag_effect_def register_listener_def applyTempo_eq registered_def Let_def)
  next
    case False
    with Sync assms(2) show ?thesis
      by (auto simp: setcpmFlag_effect_def register_listener_def applyTempo_eq registered_def Let_def
          split: option.splits)
  qed
next
  case (Notify n)
  with assms(2) notify_frame [of parseFloat quot n w] show ?thesis
    by (simp add: registered_def)
qed

lemma registered_run_keeps:
  "reachable_shape w \<Longrightarrow> registered k w = [l] \<Longrightarrow> registered k (run parseFloat quot acts w) = [l]"
  unfolding run_def
proof (induction acts arbitrary: w)
  case Nil
  then show ?case by simp
next
  case (Cons a acts)
  from Cons.prems have "reachable_shape (step parseFloat quot a w)"
    and "registered k (step parseFloat quot a w) = [l]"
    by (simp_all add: shape_step registered_step_keeps)
  from Cons.IH [OF this] show ?case by simp
qed

lemma run_hook_one:
  assumes "flags w' = flags w" "setcpm_defined w' = setcpm_defined w" "setCpm_defined w' = setCpm_defined w"
  shows "run_listener parseFloat quot (TempoChange k d dv) (ChangeN settings) w' =
           w'\<lparr>effects := effects w' @
                (if carries settings k
                 then [tempo_effect w (getValue parseFloat quot (flags w) k d dv)] else [])\<rparr>"
  using assms by (simp add: applyTempo_eq tempo_effect_def)

lemma run_hooks:
  assumes "flags w' = flags w" "setcpm_defined w' = setcpm_defined w" "setCpm_defined w' = setCpm_defined w"
  shows "run_listeners parseFloat quot (map hook ts) (ChangeN settings) w' =
           w'\<lparr>effects := effects w' @
                concat (map (\<lambda>t. if carries settings (fst t)
                                  then [tempo_effect w (getValue parseFloat quot (flags w) (fst t) (fst (snd t)) (snd (snd t)))]
                                  else []) ts)\<rparr>"
  using assms unfolding run_listeners_def
proof (induction ts arbitrary: w')
  case Nil
  then show ?case by simp
next
  case (Cons t ts)
  obtain k d dv where t: "t = (k, d, dv)" by (cases t)
  define w1 where "w1 = w'\<lparr>effects := effects w' @
                (if carries settings k
                 then [tempo_effect w (getValue parseFloat quot (flags w) k d dv)] else [])\<rparr>"
  have one: "run_listener parseFloat quot (TempoChange k d dv) (ChangeN settings) w' = w1"
    unfolding w1_def using Cons.prems by (rule run_hook_one)
  have "flags w1 = flags w" "setcpm_defined w1 = setcpm_defined w" "setCpm_defined w1 = setCpm_defined w"
    using Cons.prems by (simp_all add: w1_def)
  from Cons.IH [OF this]
  have "foldl (\<lambda>w1 (ev, l). if ev = event_of (ChangeN settings)
                              then run_listener parseFloat quot l (ChangeN settings) w1 else w1)
          w1 (map hook ts) =
        w1\<lparr>effects := effects w1 @
                concat (map (\<lambda>t. if carries settings (fst t)
                                  then [tempo_effect w (getValue parseFloat quot (flags w) (fst t) (fst (snd t)) (snd (snd t)))]
                                  else []) ts)\<rparr>" .
  then show ?case
    unfolding t by (simp del: run_listener.simps add: one) (simp add: w1_def)
qed

lemma notify_change_shape:
  assumes "client_shape w ts"
  shows "notify parseFloat quot (ChangeN settings) w =
           w\<lparr>flags := assign_current (flags w) settings,
             effects := effects w @
                concat (map (\<lambda>t. if carries settings (fst t)
                                  then [tempo_effect w (getValue parseFloat quot (assign_current (flags w) settings)
                                          (fst t) (fst (snd t)) (snd (snd t)))]
                                  else []) ts)\<rparr>"
proof -
  define w1 where "w1 = w\<lparr>flags := assign_current (flags w) settings\<rparr>"
  have first: "run_listeners parseFloat quot init_listeners (ChangeN settings) w = w1"
    by (simp add: run_listeners_def init_listeners_def w1_def)
  have split: "run_listeners parseFloat quot (init_listeners @ map hook ts) (ChangeN settings) w =
      run_listeners parseFloat quot (map hook ts) (ChangeN settings)
        (run_listeners parseFloat quot init_listeners (ChangeN settings) w)"
    by (simp add: run_listeners_def)
  have te: "tempo_effect w1 = tempo_effect w"
    by (rule tempo_effect_cong) (simp_all add: w1_def)
  have "run_listeners parseFloat quot (map hook ts) (ChangeN settings) w1 =
           w1\<lparr>effects := effects w1 @
                concat (map (\<lambda>t. if carries settings (fst t)
                                  then [tempo_effect w1 (getValue parseFloat quot (flags w1) (fst t) (fst (snd t)) (snd (snd t)))]
                                  else []) ts)\<rparr>"
    by (rule run_hooks) simp_all
  then have "run_listeners parseFloat quot (init_listeners @ map hook ts) (ChangeN settings) w =
           w1\<lparr>effects := effects w1 @
                concat (map (\<lambda>t. if carries settings (fst t)
                                  then [tempo_effect w (getValue parseFloat quot (flags w1) (fst t) (fst (snd t)) (snd (snd t)))]
                                  else []) ts)\<rparr>"
    unfolding split first te .
  then show ?thesis
    using assms by (simp add: notify_def client_shape_def w1_def cong: if_cong)
qed

lemma notify_change_reapplies:
  assumes shape: "reachable_shape w"
    and reg: "registered k w = [(Change, TempoChange k d dv)]"
    and carried: "map_of settings k \<noteq> None"
  shows "\<exists>es. effects (notify parseFloat quot (ChangeN settings) w) = effects w @ es \<and>
              tempo_effect w (getValue parseFloat quot
                  (flags (notify parseFloat quot (ChangeN settings) w)) k d dv) \<in> set es"
proof -
  from reg have "ldClient w \<noteq> None"
    by (auto simp: registered_def split: option.splits)
  with shape obtain ts where ts: "client_shape w ts"
    by (auto simp: reachable_shape_def)
  from reg have "hook (k, d, dv) \<in> set (map hook (filter (\<lambda>t. fst t = k) ts))"
    by (simp add: registered_shape [OF ts])
  then obtain t where t: "t \<in> set ts" "hook t = hook (k, d, dv)"
    by auto
  then have mem: "(k, d, dv) \<in> set ts"
    by (cases t rule: hook.cases) simp
  have c: "carries settings k"
    using carried by (auto simp: carries_def)
  show ?thesis
    unfolding notify_change_shape [OF ts]
    using mem c by (auto intro!: bexI [of _ "(k, d, dv)"])
qed

text \<open>
  C8, as amended. In every state the module reaches from its start by calls of
  \<open>initLaunchDarkly\<close> and \<open>setcpmFlag\<close> and by notifications, at most one change listener
  of \<open>setcpmFlag\<close> is registered for any flag key. When the provider client exists at the
  first invocation for a key, that invocation registers exactly one listener; it stays the
  only one for the key through every later call and notification; and on every change
  notification that carries the key it re-runs the compute-and-apply tempo step of that
  invocation, with its default and divisor, on the store as the notification has updated
  it.
\<close>

theorem setcpmFlag_registers_once:
  assumes w: "w = run parseFloat quot acts (world_init a b)"
  shows "length (registered k w) \<le> 1 \<and>
         (ldClient w \<noteq> None \<and> tempoListeners w k = None \<longrightarrow>
            registered k (setcpmFlag_effect parseFloat quot k d dv w) =
              [(Change, TempoChange k (default_to d (Num 100)) (default_to dv (Num 1)))]) \<and>
         (\<forall>l. registered k w = [l] \<longrightarrow> registered k (run parseFloat quot later w) = [l]) \<and>
         (registered k w = [(Change, TempoChange k d0 dv0)] \<and> map_of settings k \<noteq> None \<longrightarrow>
            (\<exists>es. effects (notify parseFloat quot (ChangeN settings) w) = effects w @ es \<and>
                  tempo_effect w (getValue parseFloat quot
                      (flags (notify parseFloat quot (ChangeN settings) w)) k d0 dv0) \<in> set es))"
proof -
  have shape: "reachable_shape w"
    unfolding w by (rule shape_run) (rule shape_init)
  show ?thesis
    using registered_le1 [OF shape, of k]
      registered_first_call [OF shape, of k parseFloat quot d dv]
      registered_run_keeps [OF shape, of k _ parseFloat quot later]
      notify_change_reapplies [OF shape, of k d0 dv0 settings parseFloat quot]
    by blast
qed

theorem setcpmFlag_registers_once_witness:
  "ldClient (run (\<lambda>s. NaN) (\<lambda>x y. case x of Num p \<Rightarrow> (case y of Num q \<Rightarrow> Num (p / q) | _ \<Rightarrow> NaN) | _ \<Rightarrow> NaN)
      [Init] (world_init True False)) \<noteq> None \<and>
   tempoListeners (run (\<lambda>s. NaN) (\<lambda>x y. case x of Num p \<Rightarrow> (case y of Num q \<Rightarrow> Num (p / q) | _ \<Rightarrow> NaN) | _ \<Rightarrow> NaN)
      [Init] (world_init True False)) ''t'' = None \<and>
   registered ''t''
     (setcpmFlag_effect (\<lambda>s. NaN) (\<lambda>x y. case x of Num p \<Rightarrow> (case y of Num q \<Rightarrow> Num (p / q) | _ \<Rightarrow> NaN) | _ \<Rightarrow> NaN)
        ''t'' (Num 110) (Num 4)
        (run (\<lambda>s. NaN) (\<lambda>x y. case x of Num p \<Rightarrow> (case y of Num q \<Rightarrow> Num (p / q) | _ \<Rightarrow> NaN) | _ \<Rightarrow> NaN)
           [Init] (world_init True False)))
     = [(Change, TempoChange ''t'' (Num 110) (Num 4))] \<and>
   registered ''t''
     (run (\<lambda>s. NaN) (\<lambda>x y. case x of Num p \<Rightarrow> (case y of Num q \<Rightarrow> Num (p / q) | _ \<Rightarrow> NaN) | _ \<Rightarrow> NaN)
        [Init, Sync ''t'' (Num 110) (Num 4)] (world_init True False))
     = [(Change, TempoChange ''t'' (Num 110) (Num 4))] \<and>
   registered ''t''
     (run (\<lambda>s. NaN) (\<lambda>x y. case x of Num p \<Rightarrow> (case y of Num q \<Rightarrow> Num (p / q) | _ \<Rightarrow> NaN) | _ \<Rightarrow> NaN)
        [Sync ''t'' (Num 90) (Num 2)]
        (run (\<lambda>s. NaN) (\<lambda>x y. case x of Num p \<Rightarrow> (case y of Num q \<Rightarrow> Num (p / q) | _ \<Rightarrow> NaN) | _ \<Rightarrow> NaN)
           [Init, Sync ''t'' (Num 110) (Num 4)] (world_init True False)))
     = [(Change, TempoChange ''t'' (Num 110) (Num 4))] \<and>
   map_of [(''t'', \<lparr>current = Num 120, previous = Num 110\<rparr>)] ''t'' \<noteq> None \<and>
   effects
     (notify (\<lambda>s. NaN) (\<lambda>x y. case x of Num p \<Rightarrow> (case y of Num q \<Rightarrow> Num (p / q) | _ \<Rightarrow> NaN) | _ \<Rightarrow> NaN)
        (ChangeN [(''t'', \<lparr>current = Num 120, previous = Num 110\<rparr>)])
        (run (\<lambda>s. NaN) (\<lambda>x y. case x of Num p \<Rightarrow> (case y of Num q \<Rightarrow> Num (p / q) | _ \<Rightarrow> NaN) | _ \<Rightarrow> NaN)
           [Init, Sync ''t'' (Num 110) (Num 4)] (world_init True False)))
     = [CallSetcpm (Num (55 / 2)), CallSetcpm (Num 30)]"
  using setcpmFlag_registers_once [of
          "run (\<lambda>s. NaN) (\<lambda>x y. case x of Num p \<Rightarrow> (case y of Num q \<Rightarrow> Num (p / q) | _ \<Rightarrow> NaN) | _ \<Rightarrow> NaN)
             [Init] (world_init True False)"
          "\<lambda>s. NaN" "\<lambda>x y. case x of Num p \<Rightarrow> (case y of Num q \<Rightarrow> Num (p / q) | _ \<Rightarrow> NaN) | _ \<Rightarrow> NaN"
          "[Init]" True False "''t''" "Num 110" "Num 4" "[]" "Num 110" "Num 4" "[]"]
        setcpmFlag_registers_once [of
          "run (\<lambda>s. NaN) (\<lambda>x y. case x of Num p \<Rightarrow> (case y of Num q \<Rightarrow> Num (p / q) | _ \<Rightarrow> NaN) | _ \<Rightarrow> NaN)
             [Init, Sync ''t'' (Num 110) (Num 4)] (world_init True False)"
          "\<lambda>s. NaN" "\<lambda>x y. case x of Num p \<Rightarrow> (case y of Num q \<Rightarrow> Num (p / q) | _ \<Rightarrow> NaN) | _ \<Rightarrow> NaN"
          "[Init, Sync ''t'' (Num 110) (Num 4)]" True False "''t''" "Num 110" "Num 4"
          "[Sync ''t'' (Num 90) (Num 2)]" "Num 110" "Num 4"
          "[(''t'', \<lparr>current = Num 120, previous = Num 110\<rparr>)]"]
  by (simp add: run_def world_init_def setcpmFlag_effect_def register_listener_def applyTempo_def
      applyTempo_cpm_def getValue_def getValue_on_def initLaunchDarkly_def registered_def
      notify_def run_listeners_def assign_current_def read_flag_def inherited_def
      object_prototype_def coalesce_def default_to_def carries_def Let_def)

text \<open>
  As stated, C8 fails when the first invocation for a key precedes the client: the key is
  entered in \<open>tempoListeners\<close> with no listener on any client, and a later invocation,
  with the client there, finds the entry and registers nothing. A change notification for
  the key then updates the store and applies no tempo.
\<close>

theorem setcpmFlag_without_client_counterexample:
  "registered ''t''
      (run (\<lambda>s. NaN) (\<lambda>x y. x) [Sync ''t'' (Num 110) (Num 4), Init, Sync ''t'' (Num 110) (Num 4)]
         (world_init True False)) = [] \<and>
   effects (notify (\<lambda>s. NaN) (\<lambda>x y. x) (ChangeN [(''t'', \<lparr>current = Num 120, previous = Num 110\<rparr>)])
      (run (\<lambda>s. NaN) (\<lambda>x y. x) [Sync ''t'' (Num 110) (Num 4), Init, Sync ''t'' (Num 110) (Num 4)]
         (world_init True False)))
     = effects (run (\<lambda>s. NaN) (\<lambda>x y. x) [Sync ''t'' (Num 110) (Num 4), Init, Sync ''t'' (Num 110) (Num 4)]
         (world_init True False)) \<and>
   flags (notify (\<lambda>s. NaN) (\<lambda>x y. x) (ChangeN [(''t'', \<lparr>current = Num 120, previous = Num 110\<rparr>)])
      (run (\<lambda>s. NaN) (\<lambda>x y. x) [Sync ''t'' (Num 110) (Num 4), Init, Sync ''t'' (Num 110) (Num 4)]
         (world_init True False))) ''t'' = Some (Num 120)"
  by (simp add: run_def world_init_def setcpmFlag_effect_def register_listener_def applyTempo_def
      applyTempo_cpm_def getValue_def getValue_on_def initLaunchDarkly_def registered_def
      notify_def run_listeners_def assign_current_def read_flag_def inherited_def
      object_prototype_def coalesce_def default_to_def carries_def Let_def)

end
